theory Spec2Isabelle
  imports Main "HOL-Library.AList" "HOL-Library.Sublist"
begin

section \<open>Python values, exceptions and string formatting\<close>

text \<open>
  The notebook \<^verbatim>\<open>Scopus_APIs.ipynb\<close> is a client for the Scopus Search API and the
  Abstract Retrieval API. Its code cells are embedded below: the query builder, the two
  URL formatters, the two page fetchers and the pagination loop.

  The values of the \<^verbatim>\<open>search_string_parameters\<close> dictionary are Python strings or
  integers (the notebook asks to leave an unused field as \<^verbatim>\<open>''\<close> or \<^verbatim>\<open>0\<close>).
\<close>

datatype pyval = PyStr string | PyInt int

text \<open>Python truthiness, as tested by \<^verbatim>\<open>if v\<close>.\<close>

fun truthy :: "pyval \<Rightarrow> bool" where
  "truthy (PyStr s) = (s \<noteq> [])"
| "truthy (PyInt i) = (i \<noteq> 0)"

text \<open>The exceptions that the embedded code can raise.\<close>

datatype error =
    HTTPError nat
  | RequestException
  | JSONDecodeError
  | KeyError string
  | NameError string
  | ValueError
  | OverflowError

text \<open>\<^verbatim>\<open>str(n)\<close> for a natural number: its decimal digits.\<close>

fun str_nat :: "nat \<Rightarrow> string" where
  "str_nat n = (if n < 10 then [''0123456789'' ! n]
                else str_nat (n div 10) @ [''0123456789'' ! (n mod 10)])"

declare str_nat.simps [simp del]

text \<open>What an f-string replacement field \<^verbatim>\<open>{v}\<close> renders for a value.\<close>

fun format_value :: "pyval \<Rightarrow> string" where
  "format_value (PyStr s) = s"
| "format_value (PyInt i) =
     (if i < 0 then CHR ''-'' # str_nat (nat (- i)) else str_nat (nat i))"

text \<open>
  \<^verbatim>\<open>template.format(**kwargs)\<close> for a template whose replacement fields are plain
  names, as both templates of the notebook are: a field \<^verbatim>\<open>{name}\<close> is replaced by the
  keyword argument of that name (a missing name raises \<^verbatim>\<open>KeyError\<close>, a brace without
  its partner \<^verbatim>\<open>ValueError\<close>); the text put in is not scanned again. Doubled braces,
  conversions and format specifications do not occur in the notebook and are not modelled.
\<close>

function str_format :: "string \<Rightarrow> (string \<times> string) list \<Rightarrow> error + string" where
  "str_format [] kwargs = Inr []"
| "str_format (c # cs) kwargs =
     (if c = CHR ''{'' then
        (if CHR ''}'' \<in> set cs then
           (case map_of kwargs (takeWhile (\<lambda>x. x \<noteq> CHR ''}'') cs) of
              None \<Rightarrow> Inl (KeyError (takeWhile (\<lambda>x. x \<noteq> CHR ''}'') cs))
            | Some v \<Rightarrow>
                (case str_format (tl (dropWhile (\<lambda>x. x \<noteq> CHR ''}'') cs)) kwargs of
                   Inl e \<Rightarrow> Inl e
                 | Inr s \<Rightarrow> Inr (v @ s)))
         else Inl ValueError)
      else if c = CHR ''}'' then Inl ValueError
      else (case str_format cs kwargs of Inl e \<Rightarrow> Inl e | Inr s \<Rightarrow> Inr (c # s)))"
  by pat_completeness auto
termination
  by (relation "measure (\<lambda>(t, kwargs). length t)")
     (auto simp: less_Suc_eq_le intro: order_trans [OF diff_le_self length_dropWhile_le])

section \<open>The query builder\<close>

text \<open>
  \<^verbatim>\<open>search_builder\<close>: the dictionary is an association list in insertion order, which is
  the order \<^verbatim>\<open>.items()\<close> iterates in. The loop variable \<^verbatim>\<open>search_string\<close> is the
  accumulator.
\<close>

fun search_builder_loop :: "string \<Rightarrow> (string \<times> pyval) list \<Rightarrow> string" where
  "search_builder_loop search_string [] = search_string"
| "search_builder_loop search_string ((k, v) # items) =
     search_builder_loop
       (if k = ''start_year'' \<and> truthy v then
          (if search_string \<noteq> [] then search_string @ '' AND '' else search_string)
            @ ''PUBYEAR > '' @ format_value v
        else if k = ''end_year'' \<and> truthy v then
          (if search_string \<noteq> [] then search_string @ '' AND '' else search_string)
            @ ''PUBYEAR < '' @ format_value v
        else if truthy v then
          (if search_string \<noteq> [] then search_string @ '' AND '' else search_string)
            @ k @ ''('' @ format_value v @ '')''
        else search_string)
       items"

definition search_builder :: "(string \<times> pyval) list \<Rightarrow> string" where
  "search_builder search_string_parameters = search_builder_loop [] search_string_parameters"

text \<open>
  The specification's reading of the builder, to compare with the code: a field is
  \<^emph>\<open>default\<close> when its value is the empty string or zero; every other field contributes
  one term, \<^verbatim>\<open>PUBYEAR > Y\<close> or \<^verbatim>\<open>PUBYEAR < Y\<close> for the two year fields and
  \<^verbatim>\<open>FIELD(value)\<close> otherwise; the terms are joined with \<^verbatim>\<open>" AND "\<close>.
\<close>

definition spec_is_default :: "pyval \<Rightarrow> bool" where
  "spec_is_default v = (v = PyStr [] \<or> v = PyInt 0)"

fun spec_term :: "string \<times> pyval \<Rightarrow> string" where
  "spec_term (k, v) =
     (if k = ''start_year'' then ''PUBYEAR > '' @ format_value v
      else if k = ''end_year'' then ''PUBYEAR < '' @ format_value v
      else k @ ''('' @ format_value v @ '')'')"

fun spec_join :: "string list \<Rightarrow> string" where
  "spec_join [] = []"
| "spec_join [t] = t"
| "spec_join (t # u # ts) = t @ '' AND '' @ spec_join (u # ts)"

definition spec_nondefault :: "(string \<times> pyval) list \<Rightarrow> (string \<times> pyval) list" where
  "spec_nondefault ps = filter (\<lambda>kv. \<not> spec_is_default (snd kv)) ps"

definition spec_terms :: "(string \<times> pyval) list \<Rightarrow> string list" where
  "spec_terms ps = map spec_term (spec_nondefault ps)"

text \<open>
  The number of positions of a text at which a pattern occurs (occurrences may overlap).
\<close>

fun occurrences :: "'a list \<Rightarrow> 'a list \<Rightarrow> nat" where
  "occurrences p [] = 0"
| "occurrences p (x # xs) = (if prefix p (x # xs) then 1 else 0) + occurrences p xs"

section \<open>The request formatters\<close>

text \<open>
  \<^verbatim>\<open>create_url\<close> of the search cell and \<^verbatim>\<open>create_url\<close> of the retrieval cell (the
  second definition replaces the first in the notebook; here it is \<open>create_url_doi\<close>).
  The global \<^verbatim>\<open>api_key\<close> is a parameter. \<^verbatim>\<open>f'{search_string}'\<close> of a string is the
  string.
\<close>

definition create_url :: "string \<Rightarrow> string \<Rightarrow> error + string" where
  "create_url api_key search_string =
     (let query = search_string;
          url_template =
            ''https://api.elsevier.com/content/search/scopus?query={query}&apiKey={api_key}''
      in str_format url_template [(''query'', query), (''api_key'', api_key)])"

definition create_url_doi :: "string \<Rightarrow> string \<Rightarrow> error + string" where
  "create_url_doi api_key doi =
     (let url_template =
            ''https://api.elsevier.com/content/abstract/doi/{doi}?&apiKey={api_key}''
      in str_format url_template [(''doi'', doi), (''api_key'', api_key)])"

section \<open>The HTTP layer\<close>

text \<open>
  A request as \<^verbatim>\<open>requests.get(url, params=..., headers=...)\<close> receives it, and the
  response it returns. \<open>json\<close> is the value of \<^verbatim>\<open>r.json()\<close>: the decoded top-level
  object as a dictionary, or \<open>None\<close> when the body does not decode. Of \<^verbatim>\<open>r.headers\<close>
  the three rate-limit headers the notebook reads are kept; the two that it converts
  with \<^verbatim>\<open>int(...)\<close> hold the converted number.
\<close>

record request =
  req_url :: string
  req_params :: "(string \<times> string) list"
  req_headers :: "(string \<times> string) list"

record headers =
  x_ratelimit_limit :: string
  x_ratelimit_remaining :: int
  x_ratelimit_reset :: int

record 'j response =
  status_code :: nat
  json :: "(string \<times> 'j) list option"
  headers :: headers

text \<open>
  The \<^verbatim>\<open>search-results\<close> object of a response of the search API, with the fields the
  pagination loop reads: \<^verbatim>\<open>int(r_json['opensearch:totalResults'])\<close>,
  \<^verbatim>\<open>r_json['entry']\<close>, \<^verbatim>\<open>r_json['cursor']['@current']\<close> and
  \<^verbatim>\<open>r_json['cursor']['@next']\<close>. A record of that type has these keys: a response that
  misses one of them, or whose count is not a number, is outside the model.
\<close>

record 'r page =
  total_results :: int
  entry :: "'r list"
  cursor_current :: string
  cursor_next :: string

text \<open>
  What the program does to the outside is kept as a trace of events: the pauses, the
  GET requests and the printed lines. A \<^verbatim>\<open>datetime\<close> is kept as the instant it
  denotes. The server is a state machine that answers a
  request with a response, or with an exception of \<^verbatim>\<open>requests.get\<close> itself.
\<close>

datatype datetime = Datetime int

datatype msg =
    Collecting int
  | Limit string int datetime
  | TooManyResults
  | LoopDone nat

datatype event = Sleep nat | Get request | Print msg

record 'w world =
  net :: 'w
  trace :: "event list"

type_synonym ('w, 'j) server = "'w \<Rightarrow> request \<Rightarrow> (error + 'j response) \<times> 'w"

definition emit :: "event \<Rightarrow> 'w world \<Rightarrow> 'w world" where
  "emit e wd = wd\<lparr>trace := trace wd @ [e]\<rparr>"

fun is_Get :: "event \<Rightarrow> bool" where
  "is_Get (Get req) = True"
| "is_Get e = False"

definition fetches :: "event list \<Rightarrow> nat" where
  "fetches es = length (filter is_Get es)"

definition requests_get ::
  "('w, 'j) server \<Rightarrow> request \<Rightarrow> 'w world \<Rightarrow> (error + 'j response) \<times> 'w world" where
  "requests_get srv req wd =
     (case srv (net wd) req of
        (reply, n) \<Rightarrow> (reply, \<lparr>net = n, trace = trace wd @ [Get req]\<rparr>))"

text \<open>
  \<^verbatim>\<open>Response.raise_for_status()\<close> of the requests library raises \<^verbatim>\<open>HTTPError\<close> for a
  client error (4xx) or a server error (5xx) status, and returns for any other status.
\<close>

definition raise_for_status :: "'j response \<Rightarrow> error + unit" where
  "raise_for_status r =
     (if 400 \<le> status_code r \<and> status_code r < 600 then Inl (HTTPError (status_code r))
      else Inr ())"

section \<open>The page fetchers\<close>

text \<open>
  \<^verbatim>\<open>connect_to_endpoint\<close> of the search cell. The dictionary \<^verbatim>\<open>params\<close> is mutated
  (\<^verbatim>\<open>params['cursor'] = next_\<close>), so the dictionary after the call is returned with the
  result; the caller that passes no \<^verbatim>\<open>params\<close> passes the function's default
  dictionary, which lives as long as the function.
\<close>

definition connect_to_endpoint ::
  "('w, 'r page) server \<Rightarrow> string \<Rightarrow> (string \<times> string) list \<Rightarrow> string \<Rightarrow> 'w world \<Rightarrow>
     (error + 'r page \<times> headers) \<times> (string \<times> string) list \<times> 'w world" where
  "connect_to_endpoint srv full_url params next' wd =
     (let params1 = AList.update ''cursor'' next' params in
      case requests_get srv \<lparr>req_url = full_url, req_params = params1, req_headers = []\<rparr> wd of
        (Inl e, wd1) \<Rightarrow> (Inl e, params1, wd1)
      | (Inr r, wd1) \<Rightarrow>
          (case raise_for_status r of
             Inl e \<Rightarrow> (Inl e, params1, wd1)
           | Inr u \<Rightarrow>
               (case json r of
                  None \<Rightarrow> (Inl JSONDecodeError, params1, wd1)
                | Some d \<Rightarrow>
                    (case map_of d ''search-results'' of
                       None \<Rightarrow> (Inl (KeyError ''search-results''), params1, wd1)
                     | Some p \<Rightarrow> (Inr (p, headers r), params1, wd1)))))"

text \<open>\<^verbatim>\<open>connect_to_endpoint\<close> of the retrieval cell.\<close>

definition connect_to_endpoint_doi ::
  "('w, 'j) server \<Rightarrow> string \<Rightarrow> 'w world \<Rightarrow>
     (error + (string \<times> 'j) list \<times> headers) \<times> 'w world" where
  "connect_to_endpoint_doi srv full_url wd =
     (case requests_get srv
             \<lparr>req_url = full_url, req_params = [],
              req_headers = [(''Accept'', ''application/json'')]\<rparr> wd of
        (Inl e, wd1) \<Rightarrow> (Inl e, wd1)
      | (Inr r, wd1) \<Rightarrow>
          (case raise_for_status r of
             Inl e \<Rightarrow> (Inl e, wd1)
           | Inr u \<Rightarrow>
               (case json r of
                  None \<Rightarrow> (Inl JSONDecodeError, wd1)
                | Some d \<Rightarrow> (Inr (d, headers r), wd1))))"

section \<open>The pagination loop\<close>

text \<open>
  A dataframe is the list of its rows: \<^verbatim>\<open>pd.DataFrame(entries)\<close> has one row for each
  entry, and \<^verbatim>\<open>pd.concat\<close> puts the rows of its arguments one after the other.
\<close>

definition pd_DataFrame :: "'r list \<Rightarrow> 'r list" where
  "pd_DataFrame entries = entries"

definition pd_concat :: "'r list list \<Rightarrow> 'r list" where
  "pd_concat dfs = concat dfs"

text \<open>
  The variables of the loop that live from one iteration to the next. \<open>df\<close> is
  \<open>None\<close> while the name is unbound. \<open>default_params\<close> is the default \<^verbatim>\<open>params\<close>
  dictionary of \<^verbatim>\<open>connect_to_endpoint\<close>, which the loop's calls share.
\<close>

record ('r, 'w) state =
  next' :: string
  flag :: bool
  df :: "'r list option"
  default_params :: "(string \<times> string) list"
  world :: "'w world"

text \<open>How one run of the loop body ends, and how the \<^verbatim>\<open>while\<close> statement ends.\<close>

datatype ctl = Next | Break | Raise error

datatype outcome = DONE | QUOTA_EXCEEDED | ERROR error

text \<open>
  One iteration of \<^verbatim>\<open>while flag:\<close>, for the key \<open>api_key\<close> and the query
  \<open>search_string\<close>. The pause is \<^verbatim>\<open>time.sleep(0.12)\<close>, written in milliseconds.

  \<open>fromtimestamp\<close> is \<^verbatim>\<open>datetime.fromtimestamp\<close>, a parameter of the loop: which
  timestamps it accepts, and which exception it raises for the others (\<^verbatim>\<open>ValueError\<close>,
  \<^verbatim>\<open>OverflowError\<close>), depends on the platform and on the local time zone. On the first
  page it is an argument of the second \<^verbatim>\<open>print\<close>, evaluated before anything of that
  line is printed and before \<^verbatim>\<open>df\<close> is assigned: when it raises, the iteration ends
  there.
\<close>

definition loop_body ::
  "('w, 'r page) server \<Rightarrow> (int \<Rightarrow> error + datetime) \<Rightarrow> string \<Rightarrow> string \<Rightarrow>
     ('r, 'w) state \<Rightarrow> ctl \<times> ('r, 'w) state" where
  "loop_body srv fromtimestamp api_key search_string s =
     (let wd0 = emit (Sleep 120) (world s) in
      case create_url api_key search_string of
        Inl e \<Rightarrow> (Raise e, s\<lparr>world := wd0\<rparr>)
      | Inr full_url \<Rightarrow>
          (case connect_to_endpoint srv full_url (default_params s) (next' s) wd0 of
             (Inl e, params1, wd1) \<Rightarrow> (Raise e, s\<lparr>default_params := params1, world := wd1\<rparr>)
           | (Inr (r_json, r_headers), params1, wd1) \<Rightarrow>
               (let s1 = s\<lparr>default_params := params1, world := wd1\<rparr>;
                    total = total_results r_json
                in
                if cursor_current r_json = ''*'' then
                  (let wd2 = emit (Print (Collecting total)) wd1 in
                   case fromtimestamp (x_ratelimit_reset r_headers) of
                     Inl e \<Rightarrow> (Raise e, s1\<lparr>world := wd2\<rparr>)
                   | Inr resets_on \<Rightarrow>
                       (let wd3 = emit (Print (Limit (x_ratelimit_limit r_headers)
                                          (x_ratelimit_remaining r_headers) resets_on)) wd2;
                            s2 = s1\<lparr>df := Some (pd_DataFrame (entry r_json)), world := wd3\<rparr>
                        in
                        if total > x_ratelimit_remaining r_headers
                        then (Break, s2\<lparr>world := emit (Print TooManyResults) wd3\<rparr>)
                        else (Next, s2\<lparr>next' := cursor_next r_json\<rparr>)))
                else if cursor_next r_json = cursor_current r_json then
                  (case df s1 of
                     None \<Rightarrow> (Raise (NameError ''df''), s1)
                   | Some d \<Rightarrow>
                       (Next, s1\<lparr>world := emit (Print (LoopDone (length d))) wd1,
                                  flag := False, next' := cursor_next r_json\<rparr>))
                else
                  (case df s1 of
                     None \<Rightarrow> (Raise (NameError ''df''), s1)
                   | Some d \<Rightarrow>
                       (Next, s1\<lparr>df := Some (pd_concat [d, pd_DataFrame (entry r_json)]),
                                  next' := cursor_next r_json\<rparr>)))))"

text \<open>
  What the fetch of the iteration that starts in state \<open>s\<close> returns: the first three
  statements of the loop body, up to the call of \<^verbatim>\<open>connect_to_endpoint\<close>.
\<close>

definition fetch_page ::
  "('w, 'r page) server \<Rightarrow> string \<Rightarrow> string \<Rightarrow> ('r, 'w) state \<Rightarrow> error + 'r page \<times> headers" where
  "fetch_page srv api_key search_string s =
     (case create_url api_key search_string of
        Inl e \<Rightarrow> Inl e
      | Inr full_url \<Rightarrow>
          fst (connect_to_endpoint srv full_url (default_params s) (next' s)
                 (emit (Sleep 120) (world s))))"

text \<open>
  The \<^verbatim>\<open>while\<close> statement. Nothing bounds the number of pages a server hands out, so
  the loop takes fuel, one unit for each iteration: \<open>None\<close> is a run that is still
  going when the fuel is spent.
\<close>

fun while_loop ::
  "('w, 'r page) server \<Rightarrow> (int \<Rightarrow> error + datetime) \<Rightarrow> string \<Rightarrow> string \<Rightarrow> nat \<Rightarrow>
     ('r, 'w) state \<Rightarrow> (outcome \<times> ('r, 'w) state) option" where
  "while_loop srv fromtimestamp api_key search_string 0 s =
     (if flag s then None else Some (DONE, s))"
| "while_loop srv fromtimestamp api_key search_string (Suc fuel) s =
     (if flag s then
        (case loop_body srv fromtimestamp api_key search_string s of
           (Next, s1) \<Rightarrow> while_loop srv fromtimestamp api_key search_string fuel s1
         | (Break, s1) \<Rightarrow> Some (QUOTA_EXCEEDED, s1)
         | (Raise e, s1) \<Rightarrow> Some (ERROR e, s1))
      else Some (DONE, s))"

text \<open>
  The state at the head of the loop after \<open>n\<close> iterations that all ran to their end
  (\<open>None\<close> when the loop stops before).
\<close>

fun iterations ::
  "('w, 'r page) server \<Rightarrow> (int \<Rightarrow> error + datetime) \<Rightarrow> string \<Rightarrow> string \<Rightarrow> nat \<Rightarrow>
     ('r, 'w) state \<Rightarrow> ('r, 'w) state option" where
  "iterations srv fromtimestamp api_key search_string 0 s = Some s"
| "iterations srv fromtimestamp api_key search_string (Suc n) s =
     (if flag s then
        (case loop_body srv fromtimestamp api_key search_string s of
           (Next, s1) \<Rightarrow> iterations srv fromtimestamp api_key search_string n s1
         | (Break, s1) \<Rightarrow> None
         | (Raise e, s1) \<Rightarrow> None)
      else None)"

text \<open>
  The cell before the loop: \<^verbatim>\<open>next_ = '*'\<close> and \<^verbatim>\<open>flag = True\<close>. \<open>df0\<close> is what the
  name \<^verbatim>\<open>df\<close> holds from the cells run before, if anything, and \<open>params0\<close> the
  default dictionary of \<^verbatim>\<open>connect_to_endpoint\<close> as earlier calls left it.
\<close>

definition loop_init ::
  "'r list option \<Rightarrow> (string \<times> string) list \<Rightarrow> 'w world \<Rightarrow> ('r, 'w) state" where
  "loop_init df0 params0 wd =
     \<lparr>next' = ''*'', flag = True, df = df0, default_params = params0, world = wd\<rparr>"

text \<open>
  A test double for the server, as a mocked page fetcher is: it answers the \<open>n\<close>-th
  request with the \<open>n\<close>-th reply of a script, whatever the request, and fails the
  connection once the script is used up. \<open>page_response\<close> is a reply with status 200
  whose body holds the page under \<^verbatim>\<open>search-results\<close>.
\<close>

definition scripted :: "(error + 'j response) list \<Rightarrow> (nat, 'j) server" where
  "scripted replies n req =
     (if n < length replies then replies ! n else Inl RequestException, Suc n)"

definition page_response :: "'r page \<Rightarrow> headers \<Rightarrow> error + 'r page response" where
  "page_response p h = Inr \<lparr>status_code = 200, json = Some [(''search-results'', p)], headers = h\<rparr>"

text \<open>
  The clock of the concrete runs below. It accepts the timestamps from 1970 to the end
  of the year 9999, as \<^verbatim>\<open>datetime.fromtimestamp\<close> does on a machine whose local time is
  UTC, and refuses every other with \<^verbatim>\<open>ValueError\<close>, which is what Python raises at the
  first second of the year 10000 (the year is out of range). The runs below use no
  timestamp but these.
\<close>

definition clock_utc :: "int \<Rightarrow> error + datetime" where
  "clock_utc ts =
     (if 0 \<le> ts \<and> ts \<le> 253402300799 then Inr (Datetime ts) else Inl ValueError)"

section \<open>Properties of the query builder\<close>

lemma truthy_iff_not_default: "truthy v \<longleftrightarrow> \<not> spec_is_default v"
  by (cases v) (simp_all add: spec_is_default_def)

lemma spec_term_nonempty: "spec_term kv \<noteq> []"
  by (cases kv) simp

lemma spec_join_Cons:
  "spec_join (t # ts) = (if ts = [] then t else t @ '' AND '' @ spec_join ts)"
  by (cases ts) simp_all

lemma spec_terms_Nil: "spec_terms [] = []"
  by (simp add: spec_terms_def spec_nondefault_def)

lemma spec_terms_Cons:
  "spec_terms ((k, v) # ps) =
     (if truthy v then spec_term (k, v) # spec_terms ps else spec_terms ps)"
  by (simp add: spec_terms_def spec_nondefault_def truthy_iff_not_default)

text \<open>
  The loop invariant of the builder: the accumulator followed by the terms still to
  come. A separator is written exactly when the accumulator is not empty, and no term
  is empty, so it is written between two terms and nowhere else.
\<close>

lemma search_builder_loop_join:
  "search_builder_loop acc ps =
     (if spec_terms ps = [] then acc
      else if acc = [] then spec_join (spec_terms ps)
      else acc @ '' AND '' @ spec_join (spec_terms ps))"
proof (induction ps arbitrary: acc)
  case Nil
  show ?case by (simp add: spec_terms_Nil)
next
  case (Cons kv ps)
  obtain k v where kv: "kv = (k, v)" by (cases kv)
  show ?case
  proof (cases "truthy v")
    case False
    then show ?thesis by (simp add: kv Cons.IH spec_terms_Cons)
  next
    case True
    then show ?thesis
      by (simp add: kv Cons.IH spec_terms_Cons spec_join_Cons)
  qed
qed

lemma search_builder_join: "search_builder ps = spec_join (spec_terms ps)"
  by (simp add: search_builder_def search_builder_loop_join)

lemma sublist_spec_join: "t \<in> set ts \<Longrightarrow> sublist t (spec_join ts)"
proof (induction ts rule: spec_join.induct)
  case 1
  then show ?case by simp
next
  case (2 u)
  then show ?case by simp
next
  case (3 u w ts)
  show ?case
  proof (cases "t = u")
    case True
    then show ?thesis by simp
  next
    case False
    with "3.prems" have "t \<in> set (w # ts)" by simp
    then have "sublist t (spec_join (w # ts))" by (rule "3.IH")
    then obtain ps ss where "spec_join (w # ts) = ps @ t @ ss"
      by (auto simp: sublist_def)
    then have "spec_join (u # w # ts) = (u @ '' AND '' @ ps) @ t @ ss" by simp
    then show ?thesis unfolding sublist_def by blast
  qed
qed

lemma prefix_spec_join: "prefix t (spec_join (t # ts))"
  by (simp add: spec_join_Cons)

lemma suffix_spec_join: "ts \<noteq> [] \<Longrightarrow> suffix (last ts) (spec_join ts)"
proof (induction ts rule: spec_join.induct)
  case 1
  then show ?case by simp
next
  case (2 u)
  show ?case by simp
next
  case (3 u w ts)
  then have "suffix (last (w # ts)) (spec_join (w # ts))" by simp
  then have "suffix (last (w # ts)) (u @ '' AND '' @ spec_join (w # ts))"
    by (simp only: suffix_append) simp
  then show ?case by simp
qed

subsection \<open>Counting the separators\<close>

lemma prefix_AND_space: "prefix ''AND '' r \<Longrightarrow> prefix ''AND'' r"
  using append_prefixD [of "''AND''" "'' ''" r] by simp

lemma no_AND_not_prefix: "occurrences ''AND'' t = 0 \<Longrightarrow> \<not> prefix ''AND'' t"
  by (cases t) (auto split: if_splits)

lemma no_AND_not_prefix_space:
  "occurrences ''AND'' t = 0 \<Longrightarrow> \<not> prefix ''AND'' (t @ CHR '' '' # z)"
  by (cases t; cases "tl t"; cases "tl (tl t)") (auto split: if_splits)

lemma no_AND_no_separator:
  "occurrences ''AND'' t = 0 \<Longrightarrow> occurrences '' AND '' t = 0"
proof (induction t)
  case Nil
  show ?case by simp
next
  case (Cons x t)
  from Cons.prems have t: "occurrences ''AND'' t = 0" by (simp split: if_splits)
  then have "\<not> prefix ''AND'' t" by (rule no_AND_not_prefix)
  then have "\<not> prefix '' AND '' (x # t)" by (auto dest: prefix_AND_space)
  with Cons.IH [OF t] show ?case by simp
qed

lemma occurrences_term_separator:
  "occurrences ''AND'' t = 0 \<Longrightarrow>
     occurrences '' AND '' (t @ '' AND '' @ r) = occurrences '' AND '' ('' AND '' @ r)"
proof (induction t)
  case Nil
  show ?case by simp
next
  case (Cons x t)
  from Cons.prems have t: "occurrences ''AND'' t = 0" by (simp split: if_splits)
  have "\<not> prefix ''AND'' (t @ CHR '' '' # ''AND '' @ r)"
    using t by (rule no_AND_not_prefix_space)
  then have "\<not> prefix '' AND '' (x # t @ '' AND '' @ r)"
    by (auto dest: prefix_AND_space)
  with Cons.IH [OF t] show ?case by simp
qed

lemma occurrences_separator:
  "\<not> prefix ''AND'' r \<Longrightarrow>
     occurrences '' AND '' ('' AND '' @ r) = Suc (occurrences '' AND '' r)"
  by (auto dest: prefix_AND_space)

lemma spec_join_not_prefix_AND:
  "occurrences ''AND'' t = 0 \<Longrightarrow> \<not> prefix ''AND'' (spec_join (t # ts))"
  using no_AND_not_prefix [of t] no_AND_not_prefix_space [of t]
  by (cases ts) auto

lemma occurrences_spec_join:
  "list_all (\<lambda>t. occurrences ''AND'' t = 0) ts \<Longrightarrow>
     occurrences '' AND '' (spec_join ts) = length ts - 1"
proof (induction ts rule: spec_join.induct)
  case 1
  show ?case by simp
next
  case (2 t)
  then show ?case by (simp add: no_AND_no_separator)
next
  case (3 t u ts)
  from "3.prems" have t: "occurrences ''AND'' t = 0"
    and u: "occurrences ''AND'' u = 0"
    and rest: "list_all (\<lambda>t. occurrences ''AND'' t = 0) (u # ts)" by simp_all
  have "occurrences '' AND '' (spec_join (t # u # ts))
          = occurrences '' AND '' ('' AND '' @ spec_join (u # ts))"
    using occurrences_term_separator [OF t] by simp
  also have "\<dots> = Suc (occurrences '' AND '' (spec_join (u # ts)))"
    by (rule occurrences_separator) (rule spec_join_not_prefix_AND [OF u])
  also have "\<dots> = Suc (length (u # ts) - 1)"
    using "3.IH" [OF rest] by simp
  finally show ?case by simp
qed

subsection \<open>The claims about the query builder\<close>

text \<open>
  Claim C3, as the code has it. When every field holds its default value the query is
  empty; when exactly one field \<open>k\<close> holds a non-default value \<open>v\<close> the query is
  exactly its term, \<^verbatim>\<open>PUBYEAR > v\<close> for \<^verbatim>\<open>start_year\<close>, \<^verbatim>\<open>PUBYEAR < v\<close> for
  \<^verbatim>\<open>end_year\<close> and \<^verbatim>\<open>k(v)\<close> otherwise; with \<open>N\<close> non-default fields the query is
  their \<open>N\<close> terms joined by \<^verbatim>\<open>" AND "\<close>, beginning with the first term and ending
  with the last (no leading or trailing separator), and it holds exactly \<open>N - 1\<close>
  occurrences of \<^verbatim>\<open>" AND "\<close> whenever no term contains the text \<^verbatim>\<open>AND\<close> itself.
\<close>

theorem search_builder_terms_joined:
  "(spec_nondefault ps = [] \<longrightarrow> search_builder ps = [])
   \<and> (spec_nondefault ps = [(k, v)] \<longrightarrow>
        search_builder ps =
          (if k = ''start_year'' then ''PUBYEAR > '' @ format_value v
           else if k = ''end_year'' then ''PUBYEAR < '' @ format_value v
           else k @ ''('' @ format_value v @ '')''))
   \<and> search_builder ps = spec_join (spec_terms ps)
   \<and> (spec_nondefault ps \<noteq> [] \<longrightarrow>
        prefix (spec_term (hd (spec_nondefault ps))) (search_builder ps)
        \<and> suffix (spec_term (last (spec_nondefault ps))) (search_builder ps))
   \<and> (list_all (\<lambda>t. occurrences ''AND'' t = 0) (spec_terms ps) \<longrightarrow>
        occurrences '' AND '' (search_builder ps) = length (spec_nondefault ps) - 1)"
proof (intro conjI impI)
  assume "spec_nondefault ps = []"
  then show "search_builder ps = []"
    by (simp add: search_builder_join spec_terms_def)
next
  assume "spec_nondefault ps = [(k, v)]"
  then show "search_builder ps =
          (if k = ''start_year'' then ''PUBYEAR > '' @ format_value v
           else if k = ''end_year'' then ''PUBYEAR < '' @ format_value v
           else k @ ''('' @ format_value v @ '')'')"
    by (simp add: search_builder_join spec_terms_def)
next
  show "search_builder ps = spec_join (spec_terms ps)"
    by (rule search_builder_join)
next
  assume ne: "spec_nondefault ps \<noteq> []"
  then obtain kv kvs where kvs: "spec_nondefault ps = kv # kvs"
    by (cases "spec_nondefault ps") auto
  then show "prefix (spec_term (hd (spec_nondefault ps))) (search_builder ps)"
    using prefix_spec_join [of "spec_term kv" "map spec_term kvs"]
    by (simp add: search_builder_join spec_terms_def)
next
  assume ne: "spec_nondefault ps \<noteq> []"
  then have "suffix (last (spec_terms ps)) (spec_join (spec_terms ps))"
    by (intro suffix_spec_join) (simp add: spec_terms_def)
  with ne show "suffix (spec_term (last (spec_nondefault ps))) (search_builder ps)"
    by (simp add: search_builder_join spec_terms_def last_map)
next
  assume "list_all (\<lambda>t. occurrences ''AND'' t = 0) (spec_terms ps)"
  then show "occurrences '' AND '' (search_builder ps) = length (spec_nondefault ps) - 1"
    using occurrences_spec_join [of "spec_terms ps"]
    by (simp add: search_builder_join spec_terms_def)
qed

text \<open>
  The theorem at three dictionaries of the notebook's shape: no field set, only
  \<^verbatim>\<open>start_year\<close> set, and the ISSN query of the notebook with its two year bounds.
\<close>

theorem search_builder_terms_joined_witness:
  "search_builder [(''ISSN'', PyStr []), (''start_year'', PyInt 0)] = []
   \<and> search_builder [(''ISSN'', PyStr []), (''start_year'', PyInt 2015)] = ''PUBYEAR > 2015''
   \<and> prefix ''ISSN(23301643)''
        (search_builder [(''ISSN'', PyStr ''23301643''), (''KEY'', PyStr []),
                         (''start_year'', PyInt 2013), (''end_year'', PyInt 2018)])
   \<and> suffix ''PUBYEAR < 2018''
        (search_builder [(''ISSN'', PyStr ''23301643''), (''KEY'', PyStr []),
                         (''start_year'', PyInt 2013), (''end_year'', PyInt 2018)])
   \<and> occurrences '' AND ''
        (search_builder [(''ISSN'', PyStr ''23301643''), (''KEY'', PyStr []),
                         (''start_year'', PyInt 2013), (''end_year'', PyInt 2018)]) = 2"
  using
    search_builder_terms_joined
      [where ps = "[(''ISSN'', PyStr []), (''start_year'', PyInt 0)]"]
    search_builder_terms_joined
      [where ps = "[(''ISSN'', PyStr []), (''start_year'', PyInt 2015)]"
         and k = "''start_year''" and v = "PyInt 2015"]
    search_builder_terms_joined
      [where ps = "[(''ISSN'', PyStr ''23301643''), (''KEY'', PyStr []),
                    (''start_year'', PyInt 2013), (''end_year'', PyInt 2018)]"]
  by (simp add: spec_nondefault_def spec_terms_def spec_is_default_def search_builder_def
        str_nat.simps)

text \<open>
  Claim C3 as it is written fails where a value contains the separator's text, which
  the notebook itself proposes for \<^verbatim>\<open>TITLE\<close> (\<^verbatim>\<open>cat AND dog\<close>): one field is set,
  and the query holds an occurrence of \<^verbatim>\<open>" AND "\<close>.
\<close>

theorem search_builder_AND_inside_value:
  "spec_nondefault [(''ISSN'', PyStr []), (''TITLE'', PyStr ''cat AND dog''),
                    (''start_year'', PyInt 0)]
     = [(''TITLE'', PyStr ''cat AND dog'')]
   \<and> search_builder [(''ISSN'', PyStr []), (''TITLE'', PyStr ''cat AND dog''),
                      (''start_year'', PyInt 0)]
     = ''TITLE(cat AND dog)''
   \<and> occurrences '' AND ''
        (search_builder [(''ISSN'', PyStr []), (''TITLE'', PyStr ''cat AND dog''),
                         (''start_year'', PyInt 0)]) = 1"
  by (simp add: spec_nondefault_def spec_is_default_def search_builder_def)

text \<open>
  Claim C5. \<^verbatim>\<open>search_builder\<close> leaves a field out of the query exactly when its value
  is default, that is the empty string or zero: the query is the join of the terms of
  the fields whose value is not default, in the order of the dictionary; a field with a
  default value changes nothing, wherever it stands in the dictionary; and the term of
  every field with a non-default value stands in the query.
\<close>

theorem search_builder_omits_default_fields:
  "search_builder ps =
     spec_join (map spec_term (filter (\<lambda>kv. \<not> spec_is_default (snd kv)) ps))
   \<and> (spec_is_default v \<longrightarrow> search_builder (xs @ (k, v) # ys) = search_builder (xs @ ys))
   \<and> ((k, v) \<in> set ps \<and> \<not> spec_is_default v \<longrightarrow>
        sublist (spec_term (k, v)) (search_builder ps))"
proof (intro conjI impI)
  show "search_builder ps =
     spec_join (map spec_term (filter (\<lambda>kv. \<not> spec_is_default (snd kv)) ps))"
    by (simp add: search_builder_join spec_terms_def spec_nondefault_def)
next
  assume "spec_is_default v"
  then show "search_builder (xs @ (k, v) # ys) = search_builder (xs @ ys)"
    by (simp add: search_builder_join spec_terms_def spec_nondefault_def)
next
  assume "(k, v) \<in> set ps \<and> \<not> spec_is_default v"
  then have "spec_term (k, v) \<in> set (spec_terms ps)"
    by (auto simp: spec_terms_def spec_nondefault_def simp del: spec_term.simps)
  then show "sublist (spec_term (k, v)) (search_builder ps)"
    unfolding search_builder_join by (rule sublist_spec_join)
qed

theorem search_builder_omits_default_fields_witness:
  "search_builder [(''ISSN'', PyStr ''23301643''), (''KEY'', PyStr []),
                   (''start_year'', PyInt 2013), (''end_year'', PyInt 0)]
     = ''ISSN(23301643) AND PUBYEAR > 2013''
   \<and> search_builder ([(''ISSN'', PyStr ''23301643'')] @ (''KEY'', PyStr []) #
                      [(''start_year'', PyInt 2013), (''end_year'', PyInt 0)])
     = search_builder ([(''ISSN'', PyStr ''23301643'')] @
                      [(''start_year'', PyInt 2013), (''end_year'', PyInt 0)])
   \<and> sublist ''PUBYEAR > 2013''
        (search_builder [(''ISSN'', PyStr ''23301643''), (''KEY'', PyStr []),
                         (''start_year'', PyInt 2013), (''end_year'', PyInt 0)])"
  using
    search_builder_omits_default_fields
      [where ps = "[(''ISSN'', PyStr ''23301643''), (''KEY'', PyStr []),
                    (''start_year'', PyInt 2013), (''end_year'', PyInt 0)]"
         and k = "''start_year''" and v = "PyInt 2013"]
    search_builder_omits_default_fields
      [where v = "PyStr []" and k = "''KEY''"
         and xs = "[(''ISSN'', PyStr ''23301643'')]"
         and ys = "[(''start_year'', PyInt 2013), (''end_year'', PyInt 0)]"]
  by (simp add: spec_is_default_def search_builder_def str_nat.simps)

section \<open>Properties of the request formatters\<close>

lemma create_url_eq:
  "create_url api_key q =
     Inr (''https://api.elsevier.com/content/search/scopus?query='' @ q @ ''&apiKey='' @ api_key)"
  by (simp add: create_url_def)

lemma create_url_doi_eq:
  "create_url_doi api_key d =
     Inr (''https://api.elsevier.com/content/abstract/doi/'' @ d @ ''?&apiKey='' @ api_key)"
  by (simp add: create_url_doi_def)

lemma prefix_append_Cons_notin:
  assumes "c \<notin> set p"
  shows "prefix p (u @ c # r) \<longleftrightarrow> prefix p u"
proof
  assume "prefix p (u @ c # r)"
  then consider "prefix p u" | us where "p = u @ us" "prefix us (c # r)"
    by (auto simp: prefix_append)
  then show "prefix p u"
  proof cases
    case 1
    then show ?thesis .
  next
    case 2
    with assms have "us = []" by (cases us) auto
    with 2 show ?thesis by simp
  qed
next
  assume "prefix p u"
  then show "prefix p (u @ c # r)" by (rule prefix_prefix)
qed

lemma sublist_append_Cons_notin:
  assumes "c \<notin> set p"
  shows "sublist p (q @ c # r) \<longleftrightarrow> sublist p q \<or> sublist p r"
proof (induction q)
  case Nil
  from assms have "prefix p (c # r) \<longleftrightarrow> p = []" by (cases p) auto
  then show ?case by (auto simp: sublist_Cons_right)
next
  case (Cons x q)
  have "prefix p (x # q @ c # r) \<longleftrightarrow> prefix p (x # q)"
    using prefix_append_Cons_notin [OF assms, of "x # q" r] by simp
  with Cons.IH show ?case by (auto simp: sublist_Cons_right)
qed

lemma search_url_placeholder:
  assumes "hd p = CHR ''{''" and "CHR ''&'' \<notin> set p" and "p \<noteq> []"
  shows "sublist p (''https://api.elsevier.com/content/search/scopus?query='' @ q @ ''&apiKey='' @ t)
         \<longleftrightarrow> sublist p q \<or> sublist p t"
proof -
  from assms obtain p' where p: "p = CHR ''{'' # p'" by (cases p) auto
  with assms(2) show ?thesis
    by (simp add: sublist_Cons_right sublist_append_Cons_notin)
qed

lemma doi_url_placeholder:
  assumes "hd p = CHR ''{''" and "CHR ''?'' \<notin> set p" and "p \<noteq> []"
  shows "sublist p (''https://api.elsevier.com/content/abstract/doi/'' @ d @ ''?&apiKey='' @ t)
         \<longleftrightarrow> sublist p d \<or> sublist p t"
proof -
  from assms obtain p' where p: "p = CHR ''{'' # p'" by (cases p) auto
  with assms(2) show ?thesis
    by (simp add: sublist_Cons_right sublist_append_Cons_notin)
qed

text \<open>
  Claim C6, as the code has it. For every query string \<open>q\<close> (or DOI \<open>d\<close>) and every
  key \<open>t\<close>, \<^verbatim>\<open>create_url\<close> returns the fixed text of its template with \<open>q\<close> and
  \<open>t\<close> in the place of the two placeholders: the URL contains both verbatim, and the
  text of a placeholder (\<^verbatim>\<open>{query}\<close>, \<^verbatim>\<open>{doi}\<close>, \<^verbatim>\<open>{api_key}\<close>) stands in the URL
  only where \<open>q\<close>, \<open>d\<close> or \<open>t\<close> itself contains it, so nowhere when they do not.
\<close>

theorem create_url_substitutes:
  "create_url t q =
     Inr (''https://api.elsevier.com/content/search/scopus?query='' @ q @ ''&apiKey='' @ t)
   \<and> create_url_doi t d =
     Inr (''https://api.elsevier.com/content/abstract/doi/'' @ d @ ''?&apiKey='' @ t)
   \<and> (\<exists>u v. create_url t q = Inr u \<and> create_url_doi t d = Inr v
        \<and> sublist q u \<and> sublist t u \<and> sublist d v \<and> sublist t v
        \<and> (sublist ''{query}'' u \<longleftrightarrow> sublist ''{query}'' q \<or> sublist ''{query}'' t)
        \<and> (sublist ''{api_key}'' u \<longleftrightarrow> sublist ''{api_key}'' q \<or> sublist ''{api_key}'' t)
        \<and> (sublist ''{doi}'' v \<longleftrightarrow> sublist ''{doi}'' d \<or> sublist ''{doi}'' t)
        \<and> (sublist ''{api_key}'' v \<longleftrightarrow> sublist ''{api_key}'' d \<or> sublist ''{api_key}'' t))"
proof -
  let ?u = "''https://api.elsevier.com/content/search/scopus?query='' @ q @ ''&apiKey='' @ t"
  let ?v = "''https://api.elsevier.com/content/abstract/doi/'' @ d @ ''?&apiKey='' @ t"
  have q: "sublist q ?u" by (rule sublist_appendI)
  have d: "sublist d ?v" by (rule sublist_appendI)
  have tu: "sublist t ?u"
    using sublist_append_leftI [of t "''https://api.elsevier.com/content/search/scopus?query='' @ q @ ''&apiKey=''"]
    by simp
  have tv: "sublist t ?v"
    using sublist_append_leftI [of t "''https://api.elsevier.com/content/abstract/doi/'' @ d @ ''?&apiKey=''"]
    by simp
  have 1: "sublist ''{query}'' ?u \<longleftrightarrow> sublist ''{query}'' q \<or> sublist ''{query}'' t"
    by (rule search_url_placeholder) simp_all
  have 2: "sublist ''{api_key}'' ?u \<longleftrightarrow> sublist ''{api_key}'' q \<or> sublist ''{api_key}'' t"
    by (rule search_url_placeholder) simp_all
  have 3: "sublist ''{doi}'' ?v \<longleftrightarrow> sublist ''{doi}'' d \<or> sublist ''{doi}'' t"
    by (rule doi_url_placeholder) simp_all
  have 4: "sublist ''{api_key}'' ?v \<longleftrightarrow> sublist ''{api_key}'' d \<or> sublist ''{api_key}'' t"
    by (rule doi_url_placeholder) simp_all
  show ?thesis
    unfolding create_url_eq create_url_doi_eq
    using q d tu tv 1 2 3 4 by blast
qed

text \<open>The theorem at the notebook's ISSN query and at a DOI.\<close>

theorem create_url_substitutes_witness:
  "create_url ''0123456789abcdef'' ''ISSN(23301643) AND PUBYEAR > 2013'' =
     Inr ''https://api.elsevier.com/content/search/scopus?query=ISSN(23301643) AND PUBYEAR > 2013&apiKey=0123456789abcdef''
   \<and> create_url_doi ''0123456789abcdef'' ''10.1002/asi.23329'' =
     Inr ''https://api.elsevier.com/content/abstract/doi/10.1002/asi.23329?&apiKey=0123456789abcdef''"
  using create_url_substitutes
    [of "''0123456789abcdef''" "''ISSN(23301643) AND PUBYEAR > 2013''"
        "''10.1002/asi.23329''"]
  by simp

text \<open>
  Claim C6 as it is written fails for a query string or a key that contains the text
  of a placeholder: the values are put in unescaped and are not scanned again, so the
  text stays in the URL.
\<close>

theorem create_url_keeps_placeholder_text:
  "create_url ''k'' ''{query}'' =
     Inr ''https://api.elsevier.com/content/search/scopus?query={query}&apiKey=k''
   \<and> sublist ''{query}'' ''https://api.elsevier.com/content/search/scopus?query={query}&apiKey=k''
   \<and> create_url_doi ''{api_key}'' ''d'' =
     Inr ''https://api.elsevier.com/content/abstract/doi/d?&apiKey={api_key}''
   \<and> sublist ''{api_key}'' ''https://api.elsevier.com/content/abstract/doi/d?&apiKey={api_key}''"
  by (simp add: create_url_def create_url_doi_def sublist_Cons_right)

section \<open>Properties of the page fetchers and of the pagination loop\<close>

text \<open>
  What a call of the search fetcher does whatever the server answers: the dictionary
  it leaves behind, and the one request it sends.
\<close>

lemma connect_to_endpoint_effects:
  assumes "connect_to_endpoint srv u ps c wd = (res, ps1, wd1)"
  shows "ps1 = AList.update ''cursor'' c ps"
    and "trace wd1 = trace wd @
           [Get \<lparr>req_url = u, req_params = AList.update ''cursor'' c ps, req_headers = []\<rparr>]"
  using assms
  by (auto simp: connect_to_endpoint_def requests_get_def Let_def
           split: prod.splits sum.splits option.splits)

text \<open>One iteration of the loop, case by case on what its fetch returns.\<close>

lemma loop_body_raises:
  assumes "fetch_page srv k q s = Inl e"
  shows "\<exists>s'. loop_body srv clock k q s = (Raise e, s') \<and> df s' = df s \<and> next' s' = next' s
            \<and> flag s' = flag s \<and> fetches (trace (world s')) = Suc (fetches (trace (world s)))"
  using assms
  by (auto simp: fetch_page_def loop_body_def create_url_eq emit_def Let_def fetches_def
        dest: connect_to_endpoint_effects(2)
        split: prod.splits sum.splits)

lemma loop_body_Raise_df:
  assumes "loop_body srv clock k q s = (Raise e, s')"
  shows "df s' = df s"
  using assms
  by (auto simp: loop_body_def create_url_eq Let_def
        split: prod.splits sum.splits option.splits if_splits)

lemma loop_body_clock_error:
  assumes "fetch_page srv k q s = Inr (p, h)"
    and "cursor_current p = ''*''"
    and "clock (x_ratelimit_reset h) = Inl e"
  shows "\<exists>s' req. loop_body srv clock k q s = (Raise e, s') \<and> df s' = df s
            \<and> next' s' = next' s \<and> flag s' = flag s
            \<and> trace (world s') = trace (world s) @
                 [Sleep 120, Get req, Print (Collecting (total_results p))]"
  using assms
  by (auto simp: fetch_page_def loop_body_def create_url_eq emit_def Let_def
        dest: connect_to_endpoint_effects(2)
        split: prod.splits sum.splits)

lemma loop_body_quota:
  assumes "fetch_page srv k q s = Inr (p, h)"
    and "cursor_current p = ''*''"
    and "clock (x_ratelimit_reset h) = Inr t"
    and "total_results p > x_ratelimit_remaining h"
  shows "\<exists>s' req. loop_body srv clock k q s = (Break, s') \<and> df s' = Some (entry p)
            \<and> next' s' = next' s \<and> flag s' = flag s
            \<and> trace (world s') = trace (world s) @
                 [Sleep 120, Get req, Print (Collecting (total_results p)),
                  Print (Limit (x_ratelimit_limit h) (x_ratelimit_remaining h) t),
                  Print TooManyResults]"
  using assms
  by (auto simp: fetch_page_def loop_body_def create_url_eq emit_def Let_def pd_DataFrame_def
        dest: connect_to_endpoint_effects(2)
        split: prod.splits sum.splits)

lemma loop_body_first:
  assumes "fetch_page srv k q s = Inr (p, h)"
    and "cursor_current p = ''*''"
    and "clock (x_ratelimit_reset h) = Inr t"
    and "total_results p \<le> x_ratelimit_remaining h"
  shows "\<exists>s' req. loop_body srv clock k q s = (Next, s') \<and> df s' = Some (entry p)
            \<and> next' s' = cursor_next p \<and> flag s' = flag s
            \<and> trace (world s') = trace (world s) @
                 [Sleep 120, Get req, Print (Collecting (total_results p)),
                  Print (Limit (x_ratelimit_limit h) (x_ratelimit_remaining h) t)]"
  using assms
  by (auto simp: fetch_page_def loop_body_def create_url_eq emit_def Let_def pd_DataFrame_def
        dest: connect_to_endpoint_effects(2)
        split: prod.splits sum.splits)

lemma loop_body_last:
  assumes "fetch_page srv k q s = Inr (p, h)"
    and "cursor_current p \<noteq> ''*''"
    and "cursor_next p = cursor_current p"
    and "df s = Some d"
  shows "\<exists>s' req. loop_body srv clock k q s = (Next, s') \<and> df s' = Some d
            \<and> next' s' = cursor_next p \<and> \<not> flag s'
            \<and> trace (world s') = trace (world s) @
                 [Sleep 120, Get req, Print (LoopDone (length d))]"
  using assms
  by (auto simp: fetch_page_def loop_body_def create_url_eq emit_def Let_def
        dest: connect_to_endpoint_effects(2)
        split: prod.splits sum.splits)

lemma loop_body_middle:
  assumes "fetch_page srv k q s = Inr (p, h)"
    and "cursor_current p \<noteq> ''*''"
    and "cursor_next p \<noteq> cursor_current p"
    and "df s = Some d"
  shows "\<exists>s' req. loop_body srv clock k q s = (Next, s') \<and> df s' = Some (d @ entry p)
            \<and> next' s' = cursor_next p \<and> flag s' = flag s
            \<and> trace (world s') = trace (world s) @ [Sleep 120, Get req]"
  using assms
  by (auto simp: fetch_page_def loop_body_def create_url_eq emit_def Let_def
           pd_DataFrame_def pd_concat_def
        dest: connect_to_endpoint_effects(2)
        split: prod.splits sum.splits)

text \<open>
  An HTTP error of the server, seen through each fetcher and through the second
  iteration of the loop.
\<close>

lemma connect_to_endpoint_http_error:
  assumes "srv (net wd) \<lparr>req_url = u, req_params = AList.update ''cursor'' c ps, req_headers = []\<rparr>
             = (Inr r, n)"
    and "400 \<le> status_code r" and "status_code r < 600"
  shows "connect_to_endpoint srv u ps c wd =
           (Inl (HTTPError (status_code r)), AList.update ''cursor'' c ps,
            \<lparr>net = n, trace = trace wd @
               [Get \<lparr>req_url = u, req_params = AList.update ''cursor'' c ps, req_headers = []\<rparr>]\<rparr>)"
  using assms
  by (simp add: connect_to_endpoint_def requests_get_def raise_for_status_def Let_def)

lemma connect_to_endpoint_doi_http_error:
  assumes "srv (net wd) \<lparr>req_url = u, req_params = [],
                          req_headers = [(''Accept'', ''application/json'')]\<rparr> = (Inr r, n)"
    and "400 \<le> status_code r" and "status_code r < 600"
  shows "connect_to_endpoint_doi srv u wd =
           (Inl (HTTPError (status_code r)),
            \<lparr>net = n, trace = trace wd @
               [Get \<lparr>req_url = u, req_params = [],
                     req_headers = [(''Accept'', ''application/json'')]\<rparr>]\<rparr>)"
  using assms by (simp add: connect_to_endpoint_doi_def requests_get_def raise_for_status_def)

lemma raise_for_status_other:
  "\<not> (400 \<le> status_code r \<and> status_code r < 600) \<Longrightarrow> raise_for_status r = Inr ()"
  by (simp add: raise_for_status_def)

lemma connect_to_endpoint_other_status:
  assumes "srv (net wd) \<lparr>req_url = u, req_params = AList.update ''cursor'' c ps, req_headers = []\<rparr>
             = (Inr r, n)"
    and "\<not> (400 \<le> status_code r \<and> status_code r < 600)"
  shows "connect_to_endpoint srv u ps c wd =
           ((case json r of
               None \<Rightarrow> Inl JSONDecodeError
             | Some d \<Rightarrow>
                 (case map_of d ''search-results'' of
                    None \<Rightarrow> Inl (KeyError ''search-results'')
                  | Some p \<Rightarrow> Inr (p, headers r))),
            AList.update ''cursor'' c ps,
            \<lparr>net = n, trace = trace wd @
               [Get \<lparr>req_url = u, req_params = AList.update ''cursor'' c ps, req_headers = []\<rparr>]\<rparr>)"
  using assms
  by (simp add: connect_to_endpoint_def requests_get_def raise_for_status_def Let_def
        split: option.splits)

lemma connect_to_endpoint_doi_other_status:
  assumes "srv (net wd) \<lparr>req_url = u, req_params = [],
                          req_headers = [(''Accept'', ''application/json'')]\<rparr> = (Inr r, n)"
    and "\<not> (400 \<le> status_code r \<and> status_code r < 600)"
  shows "connect_to_endpoint_doi srv u wd =
           ((case json r of
               None \<Rightarrow> Inl JSONDecodeError
             | Some d \<Rightarrow> Inr (d, headers r)),
            \<lparr>net = n, trace = trace wd @
               [Get \<lparr>req_url = u, req_params = [],
                     req_headers = [(''Accept'', ''application/json'')]\<rparr>]\<rparr>)"
  using assms
  by (simp add: connect_to_endpoint_doi_def requests_get_def raise_for_status_def
        split: option.splits)

lemma second_fetch_http_error:
  assumes "flag s0" and "loop_body srv clock k q s0 = (Next, s1)" and "flag s1"
    and "create_url k q = Inr u"
    and "srv (net (world s1))
           \<lparr>req_url = u, req_params = AList.update ''cursor'' (next' s1) (default_params s1),
            req_headers = []\<rparr> = (Inr r, n)"
    and "400 \<le> status_code r" and "status_code r < 600"
  shows "\<exists>s2. while_loop srv clock k q (Suc (Suc fuel)) s0 = Some (ERROR (HTTPError (status_code r)), s2)
           \<and> df s2 = df s1
           \<and> fetches (trace (world s2)) = Suc (fetches (trace (world s1)))"
proof -
  have "net (emit (Sleep 120) (world s1)) = net (world s1)" by (simp add: emit_def)
  with assms(5) have "srv (net (emit (Sleep 120) (world s1)))
           \<lparr>req_url = u, req_params = AList.update ''cursor'' (next' s1) (default_params s1),
            req_headers = []\<rparr> = (Inr r, n)" by simp
  with assms(6,7)
  have "fst (connect_to_endpoint srv u (default_params s1) (next' s1) (emit (Sleep 120) (world s1)))
          = Inl (HTTPError (status_code r))"
    using connect_to_endpoint_http_error
      [where srv = srv and wd = "emit (Sleep 120) (world s1)" and u = u and c = "next' s1"
         and ps = "default_params s1" and r = r and n = n]
    by simp
  with assms(4) have "fetch_page srv k q s1 = Inl (HTTPError (status_code r))"
    by (simp add: fetch_page_def)
  from loop_body_raises [OF this] obtain s2 where
    "loop_body srv clock k q s1 = (Raise (HTTPError (status_code r)), s2)" "df s2 = df s1"
    "fetches (trace (world s2)) = Suc (fetches (trace (world s1)))" by blast
  with assms(1-3) show ?thesis by simp
qed

text \<open>
  A run that ends with an exception has made some number of whole iterations before
  the one that raised.
\<close>

lemma while_loop_error_iterations:
  "while_loop srv clock k q fuel s0 = Some (ERROR e, s1) \<Longrightarrow>
     \<exists>n s. n < fuel \<and> iterations srv clock k q n s0 = Some s \<and> flag s
          \<and> loop_body srv clock k q s = (Raise e, s1) \<and> df s1 = df s"
proof (induction fuel arbitrary: s0)
  case 0
  then show ?case by (simp split: if_splits)
next
  case (Suc fuel)
  from Suc.prems have fl: "flag s0" by (simp split: if_splits)
  obtain c s' where b: "loop_body srv clock k q s0 = (c, s')"
    by (cases "loop_body srv clock k q s0") auto
  show ?case
  proof (cases c)
    case Next
    with Suc.prems fl b have "while_loop srv clock k q fuel s' = Some (ERROR e, s1)" by simp
    from Suc.IH [OF this] obtain n s where
      "n < fuel" "iterations srv clock k q n s' = Some s" "flag s"
      "loop_body srv clock k q s = (Raise e, s1)" "df s1 = df s" by blast
    with fl b Next have "Suc n < Suc fuel \<and> iterations srv clock k q (Suc n) s0 = Some s \<and> flag s
          \<and> loop_body srv clock k q s = (Raise e, s1) \<and> df s1 = df s" by simp
    then show ?thesis by blast
  next
    case Break
    with Suc.prems fl b show ?thesis by simp
  next
    case (Raise e')
    with Suc.prems fl b have "e' = e" "s' = s1" by simp_all
    with b Raise have r: "loop_body srv clock k q s0 = (Raise e, s1)" by simp
    from loop_body_Raise_df [OF r] fl r
    have "0 < Suc fuel \<and> iterations srv clock k q 0 s0 = Some s0 \<and> flag s0
          \<and> loop_body srv clock k q s0 = (Raise e, s1) \<and> df s1 = df s0" by simp
    then show ?thesis by blast
  qed
qed

text \<open>
  Runs on a scripted server: the reply at the position of the call counter decides the
  fetch, every iteration moves the counter by one, and a stretch of pages that are
  neither first nor last is appended to the dataframe page by page.
\<close>

lemma drop_eq_ConsD:
  assumes "drop n xs = x # rest"
  shows "n < length xs" and "xs ! n = x" and "drop (Suc n) xs = rest"
proof -
  show n: "n < length xs"
  proof (rule ccontr)
    assume "\<not> n < length xs"
    then have "drop n xs = []" by simp
    with assms show False by simp
  qed
  from Cons_nth_drop_Suc [OF n] assms have "xs ! n # drop (Suc n) xs = x # rest" by simp
  then show "xs ! n = x" and "drop (Suc n) xs = rest" by simp_all
qed

lemma scripted_fetch_page:
  assumes "drop (net (world s)) replies = page_response p h # rest"
  shows "fetch_page (scripted replies) k q s = Inr (p, h)"
proof -
  from drop_eq_ConsD(1,2) [OF assms]
  have "net (world s) < length replies" "replies ! net (world s) = page_response p h" .
  then show ?thesis
    by (simp add: fetch_page_def create_url_eq connect_to_endpoint_def requests_get_def
          raise_for_status_def scripted_def page_response_def emit_def Let_def)
qed

lemma scripted_fetch_page_http_error:
  assumes "drop (net (world s)) replies = Inr r # rest"
    and "400 \<le> status_code r" and "status_code r < 600"
  shows "fetch_page (scripted replies) k q s = Inl (HTTPError (status_code r))"
proof -
  from drop_eq_ConsD(1,2) [OF assms(1)]
  have "net (world s) < length replies" "replies ! net (world s) = Inr r" .
  with assms(2,3) show ?thesis
    by (simp add: fetch_page_def create_url_eq connect_to_endpoint_def requests_get_def
          raise_for_status_def scripted_def emit_def Let_def)
qed

lemma scripted_loop_body_net:
  "net (world (snd (loop_body (scripted replies) clock k q s))) = Suc (net (world s))"
  by (simp add: loop_body_def create_url_eq connect_to_endpoint_def requests_get_def
        scripted_def emit_def Let_def
      split: sum.splits option.splits prod.splits)

lemma scripted_middle_pages:
  assumes "list_all (\<lambda>ph. cursor_current (fst ph) \<noteq> ''*''
                       \<and> cursor_next (fst ph) \<noteq> cursor_current (fst ph)) mids"
    and "400 \<le> status_code r" and "status_code r < 600"
    and "drop (net (world s)) replies
           = map (\<lambda>ph. page_response (fst ph) (snd ph)) mids @ [Inr r]"
    and "flag s" and "df s = Some d"
  shows "\<exists>s'. while_loop (scripted replies) clock k q (Suc (length mids) + fuel) s
                 = Some (ERROR (HTTPError (status_code r)), s')
           \<and> df s' = Some (d @ concat (map (\<lambda>ph. entry (fst ph)) mids))
           \<and> fetches (trace (world s')) = fetches (trace (world s)) + length mids + 1"
  using assms(1,4,5,6)
proof (induction mids arbitrary: s d)
  case Nil
  then have "drop (net (world s)) replies = Inr r # []" by simp
  from scripted_fetch_page_http_error [OF this assms(2,3)]
  have "fetch_page (scripted replies) k q s = Inl (HTTPError (status_code r))" .
  from loop_body_raises [OF this] obtain s' where
    "loop_body (scripted replies) clock k q s = (Raise (HTTPError (status_code r)), s')"
    "df s' = df s" "fetches (trace (world s')) = Suc (fetches (trace (world s)))"
    by blast
  with Nil.prems show ?case by simp
next
  case (Cons ph mids)
  obtain p h where ph: "ph = (p, h)" by (cases ph)
  from Cons.prems(1) ph have mid: "cursor_current p \<noteq> ''*''" "cursor_next p \<noteq> cursor_current p"
    and rest: "list_all (\<lambda>ph. cursor_current (fst ph) \<noteq> ''*''
                       \<and> cursor_next (fst ph) \<noteq> cursor_current (fst ph)) mids"
    by simp_all
  from Cons.prems(2) ph
  have d: "drop (net (world s)) replies
             = page_response p h # (map (\<lambda>ph. page_response (fst ph) (snd ph)) mids @ [Inr r])"
    by simp
  from scripted_fetch_page [OF d]
  have "fetch_page (scripted replies) k q s = Inr (p, h)" .
  from loop_body_middle [OF this mid Cons.prems(4)] obtain s1 req where
    b: "loop_body (scripted replies) clock k q s = (Next, s1)"
    and d1: "df s1 = Some (d @ entry p)"
    and f1: "flag s1 = flag s"
    and t1: "trace (world s1) = trace (world s) @ [Sleep 120, Get req]"
    by blast
  from scripted_loop_body_net [of replies clock k q s] b
  have "net (world s1) = Suc (net (world s))" by simp
  with drop_eq_ConsD(3) [OF d]
  have "drop (net (world s1)) replies
          = map (\<lambda>ph. page_response (fst ph) (snd ph)) mids @ [Inr r]" by simp
  from Cons.IH [OF rest this _ d1] f1 Cons.prems(3) obtain s' where
    w: "while_loop (scripted replies) clock k q (Suc (length mids) + fuel) s1
          = Some (ERROR (HTTPError (status_code r)), s')"
    and d': "df s' = Some ((d @ entry p) @ concat (map (\<lambda>ph. entry (fst ph)) mids))"
    and t': "fetches (trace (world s')) = fetches (trace (world s1)) + length mids + 1"
    by auto
  from w b Cons.prems(3)
  have "while_loop (scripted replies) clock k q (Suc (length (ph # mids)) + fuel) s
          = Some (ERROR (HTTPError (status_code r)), s')" by simp
  moreover from d' ph
  have "df s' = Some (d @ concat (map (\<lambda>ph. entry (fst ph)) (ph # mids)))" by simp
  moreover from t' t1
  have "fetches (trace (world s')) = fetches (trace (world s)) + length (ph # mids) + 1"
    by (simp add: fetches_def)
  ultimately show ?case by blast
qed

lemma scripted_run_http_error:
  assumes "cursor_current p1 = ''*''" and "clock (x_ratelimit_reset h1) = Inr t1"
    and "total_results p1 \<le> x_ratelimit_remaining h1"
    and "list_all (\<lambda>ph. cursor_current (fst ph) \<noteq> ''*''
                       \<and> cursor_next (fst ph) \<noteq> cursor_current (fst ph)) mids"
    and "400 \<le> status_code r" and "status_code r < 600"
  shows "\<exists>s'. while_loop
                 (scripted (page_response p1 h1 #
                    map (\<lambda>ph. page_response (fst ph) (snd ph)) mids @ [Inr r]))
                 clock k q (Suc (Suc (length mids)) + fuel)
                 (loop_init df0 params0 \<lparr>net = 0, trace = tr\<rparr>)
               = Some (ERROR (HTTPError (status_code r)), s')
           \<and> df s' = Some (entry p1 @ concat (map (\<lambda>ph. entry (fst ph)) mids))
           \<and> fetches (trace (world s')) = fetches tr + length mids + 2"
proof -
  let ?replies = "page_response p1 h1 # map (\<lambda>ph. page_response (fst ph) (snd ph)) mids @ [Inr r]"
  let ?s0 = "loop_init df0 params0 \<lparr>net = 0::nat, trace = tr\<rparr>"
  have s0: "net (world ?s0) = 0" "flag ?s0" "trace (world ?s0) = tr"
    by (simp_all add: loop_init_def)
  then have "drop (net (world ?s0)) ?replies
               = page_response p1 h1 # (map (\<lambda>ph. page_response (fst ph) (snd ph)) mids @ [Inr r])"
    by simp
  from scripted_fetch_page [OF this]
  have "fetch_page (scripted ?replies) k q ?s0 = Inr (p1, h1)" .
  from loop_body_first [where clock = clock, OF this assms(1-3)] obtain s1 req where
    b: "loop_body (scripted ?replies) clock k q ?s0 = (Next, s1)"
    and d1: "df s1 = Some (entry p1)"
    and f1: "flag s1 = flag ?s0"
    and t1: "trace (world s1) = trace (world ?s0) @
                 [Sleep 120, Get req, Print (Collecting (total_results p1)),
                  Print (Limit (x_ratelimit_limit h1) (x_ratelimit_remaining h1) t1)]"
    by blast
  from scripted_loop_body_net [of ?replies clock k q ?s0] b s0(1)
  have "net (world s1) = Suc 0" by simp
  then have dr: "drop (net (world s1)) ?replies
          = map (\<lambda>ph. page_response (fst ph) (snd ph)) mids @ [Inr r]" by simp
  from f1 s0(2) have fl: "flag s1" by simp
  from scripted_middle_pages [OF assms(4-6) dr fl d1, of clock k q fuel] obtain s' where
    w: "while_loop (scripted ?replies) clock k q (Suc (length mids) + fuel) s1
          = Some (ERROR (HTTPError (status_code r)), s')"
    and d': "df s' = Some (entry p1 @ concat (map (\<lambda>ph. entry (fst ph)) mids))"
    and t': "fetches (trace (world s')) = fetches (trace (world s1)) + length mids + 1"
    by blast
  from w b s0(2)
  have "while_loop (scripted ?replies) clock k q (Suc (Suc (length mids)) + fuel) ?s0
          = Some (ERROR (HTTPError (status_code r)), s')" by simp
  moreover from t' t1 s0(3)
  have "fetches (trace (world s')) = fetches tr + length mids + 2"
    by (simp add: fetches_def)
  ultimately show ?thesis using d' by blast
qed

text \<open>The definitions that a run on a scripted server unfolds.\<close>

lemmas run_simps =
  loop_body_def fetch_page_def create_url_eq connect_to_endpoint_def connect_to_endpoint_doi_def
  requests_get_def raise_for_status_def scripted_def page_response_def loop_init_def emit_def
  clock_utc_def Let_def pd_DataFrame_def pd_concat_def fetches_def numeral_2_eq_2

subsection \<open>The claims about the pagination loop\<close>

text \<open>
  Claim C1, as the code has it. Take a run of the loop in which the fetch of the first
  iteration returns a page with \<^verbatim>\<open>cursor.current == '*'\<close> whose reset header is a
  timestamp that \<^verbatim>\<open>datetime.fromtimestamp\<close> accepts and whose total does not exceed the
  remaining quota (so that a second fetch is made), and the fetch of the second
  iteration returns a page, not marked \<^verbatim>\<open>'*'\<close>, whose \<^verbatim>\<open>cursor.next\<close> equals its
  \<^verbatim>\<open>cursor.current\<close>. With fuel for two iterations or more the loop ends \<open>DONE\<close>
  after exactly two fetches, and the dataframe holds exactly the records of the first
  page: the branch of the last page sets the flag and adds nothing, so the records of
  the second page are not in it.
\<close>

theorem two_page_run:
  assumes "fetch_page srv api_key q (loop_init df0 params0 wd) = Inr (p1, h1)"
    and "cursor_current p1 = ''*''"
    and "clock (x_ratelimit_reset h1) = Inr t1"
    and "total_results p1 \<le> x_ratelimit_remaining h1"
    and "fetch_page srv api_key q (snd (loop_body srv clock api_key q (loop_init df0 params0 wd)))
           = Inr (p2, h2)"
    and "cursor_current p2 \<noteq> ''*''"
    and "cursor_next p2 = cursor_current p2"
  shows "\<exists>s'. while_loop srv clock api_key q (Suc (Suc fuel)) (loop_init df0 params0 wd)
                 = Some (DONE, s')
         \<and> df s' = Some (entry p1)
         \<and> fetches (trace (world s')) = fetches (trace wd) + 2"
proof -
  let ?s0 = "loop_init df0 params0 wd"
  from loop_body_first [where clock = clock, OF assms(1-4)] obtain s1 req1 where
    b1: "loop_body srv clock api_key q ?s0 = (Next, s1)"
    and d1: "df s1 = Some (entry p1)"
    and f1: "flag s1 = flag ?s0"
    and tr1: "trace (world s1) = trace (world ?s0) @
                 [Sleep 120, Get req1, Print (Collecting (total_results p1)),
                  Print (Limit (x_ratelimit_limit h1) (x_ratelimit_remaining h1) t1)]"
    by blast
  from assms(5) b1 have "fetch_page srv api_key q s1 = Inr (p2, h2)" by simp
  from loop_body_last [OF this assms(6,7) d1] obtain s2 req2 where
    b2: "loop_body srv clock api_key q s1 = (Next, s2)"
    and d2: "df s2 = Some (entry p1)"
    and f2: "\<not> flag s2"
    and tr2: "trace (world s2) = trace (world s1) @
                 [Sleep 120, Get req2, Print (LoopDone (length (entry p1)))]"
    by blast
  have fl: "flag ?s0" and tr: "trace (world ?s0) = trace wd" by (simp_all add: loop_init_def)
  have "while_loop srv clock api_key q (Suc (Suc fuel)) ?s0 = Some (DONE, s2)"
    using b1 b2 f1 f2 fl by (cases fuel) simp_all
  moreover have "fetches (trace (world s2)) = fetches (trace wd) + 2"
    by (simp add: tr2 tr1 tr fetches_def)
  ultimately show ?thesis using d2 by blast
qed

text \<open>The theorem on a scripted server with three records, then one.\<close>

theorem two_page_run_witness:
  "\<exists>s'. while_loop
           (scripted
             [page_response
                \<lparr>total_results = 4, entry = [1, 2, 3::nat], cursor_current = ''*'',
                   cursor_next = ''AoJ''\<rparr>
                \<lparr>x_ratelimit_limit = ''20000'', x_ratelimit_remaining = 50,
                   x_ratelimit_reset = 1700000000\<rparr>,
              page_response
                \<lparr>total_results = 4, entry = [4], cursor_current = ''AoJ'',
                   cursor_next = ''AoJ''\<rparr>
                \<lparr>x_ratelimit_limit = ''20000'', x_ratelimit_remaining = 49,
                   x_ratelimit_reset = 1700000000\<rparr>])
           clock_utc ''key'' ''ISSN(23301643)'' (Suc (Suc 0))
           (loop_init None [(''cursor'', ''*'')] \<lparr>net = 0, trace = []\<rparr>)
         = Some (DONE, s')
       \<and> df s' = Some [1, 2, 3]
       \<and> fetches (trace (world s')) = 2"
  using two_page_run
    [where srv = "scripted
             [page_response
                \<lparr>total_results = 4, entry = [1, 2, 3::nat], cursor_current = ''*'',
                   cursor_next = ''AoJ''\<rparr>
                \<lparr>x_ratelimit_limit = ''20000'', x_ratelimit_remaining = 50,
                   x_ratelimit_reset = 1700000000\<rparr>,
              page_response
                \<lparr>total_results = 4, entry = [4], cursor_current = ''AoJ'',
                   cursor_next = ''AoJ''\<rparr>
                \<lparr>x_ratelimit_limit = ''20000'', x_ratelimit_remaining = 49,
                   x_ratelimit_reset = 1700000000\<rparr>]"
       and clock = clock_utc and ?t1.0 = "Datetime 1700000000"
       and api_key = "''key''" and q = "''ISSN(23301643)''" and fuel = 0
       and ?df0.0 = None and ?params0.0 = "[(''cursor'', ''*'')]"
       and wd = "\<lparr>net = 0, trace = []\<rparr>"
       and ?p1.0 = "\<lparr>total_results = 4, entry = [1, 2, 3::nat], cursor_current = ''*'',
                   cursor_next = ''AoJ''\<rparr>"
       and ?h1.0 = "\<lparr>x_ratelimit_limit = ''20000'', x_ratelimit_remaining = 50,
                   x_ratelimit_reset = 1700000000\<rparr>"
       and ?p2.0 = "\<lparr>total_results = 4, entry = [4], cursor_current = ''AoJ'',
                   cursor_next = ''AoJ''\<rparr>"
       and ?h2.0 = "\<lparr>x_ratelimit_limit = ''20000'', x_ratelimit_remaining = 49,
                   x_ratelimit_reset = 1700000000\<rparr>"]
  by (simp add: run_simps)

text \<open>
  Claim C1 as it is written asks for the records of both calls. On a server whose two
  pages carry one record each, the run makes its two fetches and ends \<open>DONE\<close> with a
  dataframe of one row, not two. And on a first page whose reset header is the first
  second of the year 10000, the run ends in the first iteration with the
  \<^verbatim>\<open>ValueError\<close> of \<^verbatim>\<open>datetime.fromtimestamp\<close>, after one fetch and with \<^verbatim>\<open>df\<close>
  unbound.
\<close>

theorem last_page_records_left_out:
  "while_loop
     (scripted
        [page_response
           \<lparr>total_results = 2, entry = [1::nat], cursor_current = ''*'', cursor_next = ''A''\<rparr>
           \<lparr>x_ratelimit_limit = ''20000'', x_ratelimit_remaining = 50,
              x_ratelimit_reset = 1700000000\<rparr>,
         page_response
           \<lparr>total_results = 2, entry = [2], cursor_current = ''A'', cursor_next = ''A''\<rparr>
           \<lparr>x_ratelimit_limit = ''20000'', x_ratelimit_remaining = 49,
              x_ratelimit_reset = 1700000000\<rparr>])
     clock_utc ''k'' ''q'' 2 (loop_init None [(''cursor'', ''*'')] \<lparr>net = 0, trace = []\<rparr>)
   = Some (DONE,
       \<lparr>next' = ''A'', flag = False, df = Some [1],
          default_params = [(''cursor'', ''A'')],
          world =
            \<lparr>net = 2,
               trace =
                 [Sleep 120,
                  Get \<lparr>req_url =
                         ''https://api.elsevier.com/content/search/scopus?query=q&apiKey=k'',
                       req_params = [(''cursor'', ''*'')], req_headers = []\<rparr>,
                  Print (Collecting 2), Print (Limit ''20000'' 50 (Datetime 1700000000)),
                  Sleep 120,
                  Get \<lparr>req_url =
                         ''https://api.elsevier.com/content/search/scopus?query=q&apiKey=k'',
                       req_params = [(''cursor'', ''A'')], req_headers = []\<rparr>,
                  Print (LoopDone 1)]\<rparr>\<rparr>)
   \<and> while_loop
     (scripted
        [page_response
           \<lparr>total_results = 2, entry = [1::nat], cursor_current = ''*'', cursor_next = ''A''\<rparr>
           \<lparr>x_ratelimit_limit = ''20000'', x_ratelimit_remaining = 50,
              x_ratelimit_reset = 253402300800\<rparr>,
         page_response
           \<lparr>total_results = 2, entry = [], cursor_current = ''A'', cursor_next = ''A''\<rparr>
           \<lparr>x_ratelimit_limit = ''20000'', x_ratelimit_remaining = 49,
              x_ratelimit_reset = 253402300800\<rparr>])
     clock_utc ''k'' ''q'' 2 (loop_init None [(''cursor'', ''*'')] \<lparr>net = 0, trace = []\<rparr>)
   = Some (ERROR ValueError,
       \<lparr>next' = ''*'', flag = True, df = None,
          default_params = [(''cursor'', ''*'')],
          world =
            \<lparr>net = 1,
               trace =
                 [Sleep 120,
                  Get \<lparr>req_url =
                         ''https://api.elsevier.com/content/search/scopus?query=q&apiKey=k'',
                       req_params = [(''cursor'', ''*'')], req_headers = []\<rparr>,
                  Print (Collecting 2)]\<rparr>\<rparr>)"
  by (simp add: run_simps)

text \<open>
  Claim C2, as the code has it. Take a run whose first fetch returns a page with
  \<^verbatim>\<open>cursor.current == '*'\<close> whose total-result count is greater than the value of
  \<^verbatim>\<open>X-RateLimit-Remaining\<close>. When the reset header is a timestamp that
  \<^verbatim>\<open>datetime.fromtimestamp\<close> accepts, the loop ends \<open>QUOTA_EXCEEDED\<close> in that
  iteration, for any fuel of one or more: one fetch has been made, the warning is the
  last line printed, and the dataframe holds exactly the records of that first page.
  When \<^verbatim>\<open>datetime.fromtimestamp\<close> raises instead, the run ends with that exception
  after the one fetch: the limits and the warning are not printed, and \<^verbatim>\<open>df\<close> is what
  it was before the loop.
\<close>

theorem quota_guard:
  assumes "fetch_page srv api_key q (loop_init df0 params0 wd) = Inr (p, h)"
    and "cursor_current p = ''*''"
    and "total_results p > x_ratelimit_remaining h"
  shows "(clock (x_ratelimit_reset h) = Inr t \<longrightarrow>
          (\<exists>s' req.
             while_loop srv clock api_key q (Suc fuel) (loop_init df0 params0 wd)
               = Some (QUOTA_EXCEEDED, s')
           \<and> df s' = Some (entry p)
           \<and> trace (world s') = trace wd @
                [Sleep 120, Get req, Print (Collecting (total_results p)),
                 Print (Limit (x_ratelimit_limit h) (x_ratelimit_remaining h) t),
                 Print TooManyResults]
           \<and> fetches (trace (world s')) = fetches (trace wd) + 1))
       \<and> (clock (x_ratelimit_reset h) = Inl e \<longrightarrow>
          (\<exists>s' req.
             while_loop srv clock api_key q (Suc fuel) (loop_init df0 params0 wd)
               = Some (ERROR e, s')
           \<and> df s' = df0
           \<and> trace (world s') = trace wd @
                [Sleep 120, Get req, Print (Collecting (total_results p))]
           \<and> fetches (trace (world s')) = fetches (trace wd) + 1))"
proof (intro conjI impI)
  assume ok: "clock (x_ratelimit_reset h) = Inr t"
  from loop_body_quota [where clock = clock, OF assms(1,2) ok assms(3)] obtain s' req where
    body: "loop_body srv clock api_key q (loop_init df0 params0 wd) = (Break, s')"
    and d: "df s' = Some (entry p)"
    and tr: "trace (world s') = trace (world (loop_init df0 params0 wd)) @
                 [Sleep 120, Get req, Print (Collecting (total_results p)),
                  Print (Limit (x_ratelimit_limit h) (x_ratelimit_remaining h) t),
                  Print TooManyResults]"
    by blast
  have "while_loop srv clock api_key q (Suc fuel) (loop_init df0 params0 wd)
          = Some (QUOTA_EXCEEDED, s')"
    using body by (simp add: loop_init_def)
  moreover have "trace (world (loop_init df0 params0 wd)) = trace wd"
    by (simp add: loop_init_def)
  ultimately show "\<exists>s' req.
             while_loop srv clock api_key q (Suc fuel) (loop_init df0 params0 wd)
               = Some (QUOTA_EXCEEDED, s')
           \<and> df s' = Some (entry p)
           \<and> trace (world s') = trace wd @
                [Sleep 120, Get req, Print (Collecting (total_results p)),
                 Print (Limit (x_ratelimit_limit h) (x_ratelimit_remaining h) t),
                 Print TooManyResults]
           \<and> fetches (trace (world s')) = fetches (trace wd) + 1"
    using d tr by (simp add: fetches_def)
next
  assume bad: "clock (x_ratelimit_reset h) = Inl e"
  from loop_body_clock_error [where clock = clock, OF assms(1,2) bad] obtain s' req where
    body: "loop_body srv clock api_key q (loop_init df0 params0 wd) = (Raise e, s')"
    and d: "df s' = df (loop_init df0 params0 wd)"
    and tr: "trace (world s') = trace (world (loop_init df0 params0 wd)) @
                 [Sleep 120, Get req, Print (Collecting (total_results p))]"
    by blast
  have "while_loop srv clock api_key q (Suc fuel) (loop_init df0 params0 wd)
          = Some (ERROR e, s')"
    using body by (simp add: loop_init_def)
  moreover have "trace (world (loop_init df0 params0 wd)) = trace wd"
    and "df (loop_init df0 params0 wd) = df0"
    by (simp_all add: loop_init_def)
  ultimately show "\<exists>s' req.
             while_loop srv clock api_key q (Suc fuel) (loop_init df0 params0 wd)
               = Some (ERROR e, s')
           \<and> df s' = df0
           \<and> trace (world s') = trace wd @
                [Sleep 120, Get req, Print (Collecting (total_results p))]
           \<and> fetches (trace (world s')) = fetches (trace wd) + 1"
    using d tr by (simp add: fetches_def)
qed

text \<open>
  The theorem at the specification's figures, 100 results and 50 calls left: with a
  reset header of November 2023, and with one of the first second of the year 10000.
\<close>

theorem quota_guard_witness:
  "(\<exists>s' req.
     while_loop
       (scripted
          [page_response
             \<lparr>total_results = 100, entry = [1, 2, 3::nat], cursor_current = ''*'',
                cursor_next = ''AoJ''\<rparr>
             \<lparr>x_ratelimit_limit = ''20000'', x_ratelimit_remaining = 50,
                x_ratelimit_reset = 1700000000\<rparr>])
       clock_utc ''key'' ''ISSN(23301643)'' (Suc 0)
       (loop_init None [(''cursor'', ''*'')] \<lparr>net = 0, trace = []\<rparr>)
     = Some (QUOTA_EXCEEDED, s')
   \<and> df s' = Some [1, 2, 3]
   \<and> trace (world s') =
        [Sleep 120, Get req, Print (Collecting 100),
         Print (Limit ''20000'' 50 (Datetime 1700000000)), Print TooManyResults]
   \<and> fetches (trace (world s')) = 1)
   \<and> (\<exists>s' req.
     while_loop
       (scripted
          [page_response
             \<lparr>total_results = 100, entry = [1, 2, 3::nat], cursor_current = ''*'',
                cursor_next = ''AoJ''\<rparr>
             \<lparr>x_ratelimit_limit = ''20000'', x_ratelimit_remaining = 50,
                x_ratelimit_reset = 253402300800\<rparr>])
       clock_utc ''key'' ''ISSN(23301643)'' (Suc 0)
       (loop_init None [(''cursor'', ''*'')] \<lparr>net = 0, trace = []\<rparr>)
     = Some (ERROR ValueError, s')
   \<and> df s' = None
   \<and> trace (world s') = [Sleep 120, Get req, Print (Collecting 100)]
   \<and> fetches (trace (world s')) = 1)"
  using
    quota_guard
    [where srv = "scripted
          [page_response
             \<lparr>total_results = 100, entry = [1, 2, 3::nat], cursor_current = ''*'',
                cursor_next = ''AoJ''\<rparr>
             \<lparr>x_ratelimit_limit = ''20000'', x_ratelimit_remaining = 50,
                x_ratelimit_reset = 1700000000\<rparr>]"
       and clock = clock_utc and t = "Datetime 1700000000"
       and api_key = "''key''" and q = "''ISSN(23301643)''" and fuel = 0
       and ?df0.0 = None and ?params0.0 = "[(''cursor'', ''*'')]"
       and wd = "\<lparr>net = 0, trace = []\<rparr>"
       and p = "\<lparr>total_results = 100, entry = [1, 2, 3::nat], cursor_current = ''*'',
                cursor_next = ''AoJ''\<rparr>"
       and h = "\<lparr>x_ratelimit_limit = ''20000'', x_ratelimit_remaining = 50,
                x_ratelimit_reset = 1700000000\<rparr>",
     THEN conjunct1]
    quota_guard
    [where srv = "scripted
          [page_response
             \<lparr>total_results = 100, entry = [1, 2, 3::nat], cursor_current = ''*'',
                cursor_next = ''AoJ''\<rparr>
             \<lparr>x_ratelimit_limit = ''20000'', x_ratelimit_remaining = 50,
                x_ratelimit_reset = 253402300800\<rparr>]"
       and clock = clock_utc and e = ValueError
       and api_key = "''key''" and q = "''ISSN(23301643)''" and fuel = 0
       and ?df0.0 = None and ?params0.0 = "[(''cursor'', ''*'')]"
       and wd = "\<lparr>net = 0, trace = []\<rparr>"
       and p = "\<lparr>total_results = 100, entry = [1, 2, 3::nat], cursor_current = ''*'',
                cursor_next = ''AoJ''\<rparr>"
       and h = "\<lparr>x_ratelimit_limit = ''20000'', x_ratelimit_remaining = 50,
                x_ratelimit_reset = 253402300800\<rparr>",
     THEN conjunct2]
  by (simp add: run_simps)

text \<open>
  Claim C2 as it is written speaks of every first page over the quota. On a first page
  over the quota whose reset header is the first second of the year 10000, the run ends
  in \<open>ERROR\<close> with the \<^verbatim>\<open>ValueError\<close> of \<^verbatim>\<open>datetime.fromtimestamp\<close>, not in
  \<open>QUOTA_EXCEEDED\<close>: no warning is printed, and \<^verbatim>\<open>df\<close> is unbound.
\<close>

theorem quota_guard_dies_on_reset_header:
  "while_loop
     (scripted
        [page_response
           \<lparr>total_results = 100, entry = [1, 2, 3::nat], cursor_current = ''*'',
              cursor_next = ''AoJ''\<rparr>
           \<lparr>x_ratelimit_limit = ''20000'', x_ratelimit_remaining = 50,
              x_ratelimit_reset = 253402300800\<rparr>])
     clock_utc ''k'' ''q'' 1 (loop_init None [(''cursor'', ''*'')] \<lparr>net = 0, trace = []\<rparr>)
   = Some (ERROR ValueError,
       \<lparr>next' = ''*'', flag = True, df = None,
          default_params = [(''cursor'', ''*'')],
          world =
            \<lparr>net = 1,
               trace =
                 [Sleep 120,
                  Get \<lparr>req_url =
                         ''https://api.elsevier.com/content/search/scopus?query=q&apiKey=k'',
                       req_params = [(''cursor'', ''*'')], req_headers = []\<rparr>,
                  Print (Collecting 100)]\<rparr>\<rparr>)"
  by (simp add: run_simps)

text \<open>
  Claim C4, as the code has it. The status check of both fetchers is
  \<^verbatim>\<open>raise_for_status\<close>, which refuses the client and server error statuses (400 to
  599). When the server answers a fetcher's request with a response of such a status,
  the call fails with \<^verbatim>\<open>HTTPError\<close> carrying that status, and exactly one request has
  been sent (no retry); this holds for the search fetcher and for the retrieval fetcher.
  When the loop's first iteration runs to its end and the server answers the request of
  the second with such a response, the run ends in \<open>ERROR\<close> with that \<^verbatim>\<open>HTTPError\<close>,
  after one more fetch and with the dataframe as the first iteration left it. A response
  with any other status passes the status check: \<^verbatim>\<open>raise_for_status\<close> returns, and
  what the fetcher gives back is decided by the body alone, again after one request.
\<close>

theorem http_error_propagates:
  "(srv (net wd) \<lparr>req_url = u, req_params = AList.update ''cursor'' c ps, req_headers = []\<rparr>
        = (Inr r, n) \<and> 400 \<le> status_code r \<and> status_code r < 600 \<longrightarrow>
      connect_to_endpoint srv u ps c wd =
        (Inl (HTTPError (status_code r)), AList.update ''cursor'' c ps,
         \<lparr>net = n, trace = trace wd @
            [Get \<lparr>req_url = u, req_params = AList.update ''cursor'' c ps, req_headers = []\<rparr>]\<rparr>))
   \<and> (srv' (net wd') \<lparr>req_url = u, req_params = [],
                       req_headers = [(''Accept'', ''application/json'')]\<rparr>
        = (Inr r', n') \<and> 400 \<le> status_code r' \<and> status_code r' < 600 \<longrightarrow>
      connect_to_endpoint_doi srv' u wd' =
        (Inl (HTTPError (status_code r')),
         \<lparr>net = n', trace = trace wd' @
            [Get \<lparr>req_url = u, req_params = [],
                  req_headers = [(''Accept'', ''application/json'')]\<rparr>]\<rparr>))
   \<and> (flag s0 \<and> loop_body srv clock api_key q s0 = (Next, s1) \<and> flag s1
      \<and> create_url api_key q = Inr u
      \<and> srv (net (world s1))
           \<lparr>req_url = u, req_params = AList.update ''cursor'' (next' s1) (default_params s1),
            req_headers = []\<rparr> = (Inr r, n)
      \<and> 400 \<le> status_code r \<and> status_code r < 600 \<longrightarrow>
      (\<exists>s2. while_loop srv clock api_key q (Suc (Suc fuel)) s0
               = Some (ERROR (HTTPError (status_code r)), s2)
           \<and> df s2 = df s1
           \<and> fetches (trace (world s2)) = Suc (fetches (trace (world s1)))))
   \<and> (\<not> (400 \<le> status_code r \<and> status_code r < 600) \<longrightarrow> raise_for_status r = Inr ())
   \<and> (srv (net wd) \<lparr>req_url = u, req_params = AList.update ''cursor'' c ps, req_headers = []\<rparr>
        = (Inr r, n) \<and> \<not> (400 \<le> status_code r \<and> status_code r < 600) \<longrightarrow>
      connect_to_endpoint srv u ps c wd =
        ((case json r of
            None \<Rightarrow> Inl JSONDecodeError
          | Some d \<Rightarrow>
              (case map_of d ''search-results'' of
                 None \<Rightarrow> Inl (KeyError ''search-results'')
               | Some p \<Rightarrow> Inr (p, headers r))),
         AList.update ''cursor'' c ps,
         \<lparr>net = n, trace = trace wd @
            [Get \<lparr>req_url = u, req_params = AList.update ''cursor'' c ps, req_headers = []\<rparr>]\<rparr>))
   \<and> (srv' (net wd') \<lparr>req_url = u, req_params = [],
                       req_headers = [(''Accept'', ''application/json'')]\<rparr>
        = (Inr r', n') \<and> \<not> (400 \<le> status_code r' \<and> status_code r' < 600) \<longrightarrow>
      connect_to_endpoint_doi srv' u wd' =
        ((case json r' of
            None \<Rightarrow> Inl JSONDecodeError
          | Some d \<Rightarrow> Inr (d, headers r')),
         \<lparr>net = n', trace = trace wd' @
            [Get \<lparr>req_url = u, req_params = [],
                  req_headers = [(''Accept'', ''application/json'')]\<rparr>]\<rparr>))"
proof (intro conjI impI)
  assume "srv (net wd) \<lparr>req_url = u, req_params = AList.update ''cursor'' c ps, req_headers = []\<rparr>
        = (Inr r, n) \<and> 400 \<le> status_code r \<and> status_code r < 600"
  then show "connect_to_endpoint srv u ps c wd =
        (Inl (HTTPError (status_code r)), AList.update ''cursor'' c ps,
         \<lparr>net = n, trace = trace wd @
            [Get \<lparr>req_url = u, req_params = AList.update ''cursor'' c ps, req_headers = []\<rparr>]\<rparr>)"
    by (intro connect_to_endpoint_http_error) simp_all
next
  assume "srv' (net wd') \<lparr>req_url = u, req_params = [],
                       req_headers = [(''Accept'', ''application/json'')]\<rparr>
        = (Inr r', n') \<and> 400 \<le> status_code r' \<and> status_code r' < 600"
  then show "connect_to_endpoint_doi srv' u wd' =
        (Inl (HTTPError (status_code r')),
         \<lparr>net = n', trace = trace wd' @
            [Get \<lparr>req_url = u, req_params = [],
                  req_headers = [(''Accept'', ''application/json'')]\<rparr>]\<rparr>)"
    by (intro connect_to_endpoint_doi_http_error) simp_all
next
  assume h: "flag s0 \<and> loop_body srv clock api_key q s0 = (Next, s1) \<and> flag s1
      \<and> create_url api_key q = Inr u
      \<and> srv (net (world s1))
           \<lparr>req_url = u, req_params = AList.update ''cursor'' (next' s1) (default_params s1),
            req_headers = []\<rparr> = (Inr r, n)
      \<and> 400 \<le> status_code r \<and> status_code r < 600"
  show "\<exists>s2. while_loop srv clock api_key q (Suc (Suc fuel)) s0
               = Some (ERROR (HTTPError (status_code r)), s2)
           \<and> df s2 = df s1
           \<and> fetches (trace (world s2)) = Suc (fetches (trace (world s1)))"
    using h by (intro second_fetch_http_error [where u = u and n = n]) simp_all
next
  assume "\<not> (400 \<le> status_code r \<and> status_code r < 600)"
  then show "raise_for_status r = Inr ()" by (rule raise_for_status_other)
next
  assume "srv (net wd) \<lparr>req_url = u, req_params = AList.update ''cursor'' c ps, req_headers = []\<rparr>
        = (Inr r, n) \<and> \<not> (400 \<le> status_code r \<and> status_code r < 600)"
  then show "connect_to_endpoint srv u ps c wd =
        ((case json r of
            None \<Rightarrow> Inl JSONDecodeError
          | Some d \<Rightarrow>
              (case map_of d ''search-results'' of
                 None \<Rightarrow> Inl (KeyError ''search-results'')
               | Some p \<Rightarrow> Inr (p, headers r))),
         AList.update ''cursor'' c ps,
         \<lparr>net = n, trace = trace wd @
            [Get \<lparr>req_url = u, req_params = AList.update ''cursor'' c ps, req_headers = []\<rparr>]\<rparr>)"
    by (intro connect_to_endpoint_other_status) simp_all
next
  assume "srv' (net wd') \<lparr>req_url = u, req_params = [],
                       req_headers = [(''Accept'', ''application/json'')]\<rparr>
        = (Inr r', n') \<and> \<not> (400 \<le> status_code r' \<and> status_code r' < 600)"
  then show "connect_to_endpoint_doi srv' u wd' =
        ((case json r' of
            None \<Rightarrow> Inl JSONDecodeError
          | Some d \<Rightarrow> Inr (d, headers r')),
         \<lparr>net = n', trace = trace wd' @
            [Get \<lparr>req_url = u, req_params = [],
                  req_headers = [(''Accept'', ''application/json'')]\<rparr>]\<rparr>)"
    by (intro connect_to_endpoint_doi_other_status) simp_all
qed

text \<open>
  The theorem on scripted servers: a 404 for the search fetcher, a 500 for the
  retrieval fetcher, a 429 on the second fetch of the loop, and a 300 and a 304 that pass
  the status check.
\<close>

theorem http_error_propagates_witness:
  "connect_to_endpoint
     (scripted
        [Inr \<lparr>status_code = 404, json = None :: (string \<times> nat page) list option,
              headers = \<lparr>x_ratelimit_limit = ''20000'', x_ratelimit_remaining = 50,
                         x_ratelimit_reset = 1700000000\<rparr>\<rparr>])
     ''u'' [(''cursor'', ''*'')] ''AoJ'' \<lparr>net = 0, trace = []\<rparr>
   = (Inl (HTTPError 404), [(''cursor'', ''AoJ'')],
      \<lparr>net = Suc 0,
         trace = [Get \<lparr>req_url = ''u'', req_params = [(''cursor'', ''AoJ'')],
                       req_headers = []\<rparr>]\<rparr>)
   \<and> connect_to_endpoint_doi
     (scripted
        [Inr \<lparr>status_code = 500, json = None :: (string \<times> nat) list option,
              headers = \<lparr>x_ratelimit_limit = ''20000'', x_ratelimit_remaining = 50,
                         x_ratelimit_reset = 1700000000\<rparr>\<rparr>])
     ''u'' \<lparr>net = 0, trace = []\<rparr>
   = (Inl (HTTPError 500),
      \<lparr>net = Suc 0,
         trace = [Get \<lparr>req_url = ''u'', req_params = [],
                       req_headers = [(''Accept'', ''application/json'')]\<rparr>]\<rparr>)
   \<and> (\<exists>s2. while_loop
          (scripted
             [page_response
                \<lparr>total_results = 2, entry = [1::nat], cursor_current = ''*'',
                   cursor_next = ''A''\<rparr>
                \<lparr>x_ratelimit_limit = ''20000'', x_ratelimit_remaining = 50,
                   x_ratelimit_reset = 1700000000\<rparr>,
              Inr \<lparr>status_code = 429, json = None,
                   headers = \<lparr>x_ratelimit_limit = ''20000'', x_ratelimit_remaining = 0,
                              x_ratelimit_reset = 1700000000\<rparr>\<rparr>])
          clock_utc ''k'' ''q'' (Suc (Suc 0))
          (loop_init None [(''cursor'', ''*'')] \<lparr>net = 0, trace = []\<rparr>)
        = Some (ERROR (HTTPError 429), s2)
      \<and> df s2 = Some [1] \<and> fetches (trace (world s2)) = 2)
   \<and> raise_for_status
        \<lparr>status_code = 300, json = None :: (string \<times> nat page) list option,
           headers = \<lparr>x_ratelimit_limit = ''20000'', x_ratelimit_remaining = 50,
                      x_ratelimit_reset = 1700000000\<rparr>\<rparr> = Inr ()
   \<and> connect_to_endpoint
     (scripted
        [Inr \<lparr>status_code = 300, json = None :: (string \<times> nat page) list option,
              headers = \<lparr>x_ratelimit_limit = ''20000'', x_ratelimit_remaining = 50,
                         x_ratelimit_reset = 1700000000\<rparr>\<rparr>])
     ''u'' [(''cursor'', ''*'')] ''AoJ'' \<lparr>net = 0, trace = []\<rparr>
   = (Inl JSONDecodeError, [(''cursor'', ''AoJ'')],
      \<lparr>net = Suc 0,
         trace = [Get \<lparr>req_url = ''u'', req_params = [(''cursor'', ''AoJ'')],
                       req_headers = []\<rparr>]\<rparr>)
   \<and> connect_to_endpoint_doi
     (scripted
        [Inr \<lparr>status_code = 304, json = Some [(''abstracts-retrieval-response'', 7::nat)],
              headers = \<lparr>x_ratelimit_limit = ''20000'', x_ratelimit_remaining = 50,
                         x_ratelimit_reset = 1700000000\<rparr>\<rparr>])
     ''u'' \<lparr>net = 0, trace = []\<rparr>
   = (Inr ([(''abstracts-retrieval-response'', 7)],
           \<lparr>x_ratelimit_limit = ''20000'', x_ratelimit_remaining = 50,
              x_ratelimit_reset = 1700000000\<rparr>),
      \<lparr>net = Suc 0,
         trace = [Get \<lparr>req_url = ''u'', req_params = [],
                       req_headers = [(''Accept'', ''application/json'')]\<rparr>]\<rparr>)"
proof -
  let ?h = "\<lparr>x_ratelimit_limit = ''20000'', x_ratelimit_remaining = 50,
             x_ratelimit_reset = 1700000000\<rparr>"
  let ?r404 = "\<lparr>status_code = 404, json = None :: (string \<times> nat page) list option,
                headers = ?h\<rparr>"
  let ?r500 = "\<lparr>status_code = 500, json = None :: (string \<times> nat) list option,
                headers = ?h\<rparr>"
  let ?r300 = "\<lparr>status_code = 300, json = None :: (string \<times> nat page) list option,
                headers = ?h\<rparr>"
  let ?r304 = "\<lparr>status_code = 304, json = Some [(''abstracts-retrieval-response'', 7::nat)],
                headers = ?h\<rparr>"
  let ?r429 = "\<lparr>status_code = 429, json = None :: (string \<times> nat page) list option,
                headers = \<lparr>x_ratelimit_limit = ''20000'', x_ratelimit_remaining = 0,
                           x_ratelimit_reset = 1700000000\<rparr>\<rparr>"
  let ?srv = "scripted
             [page_response
                \<lparr>total_results = 2, entry = [1::nat], cursor_current = ''*'',
                   cursor_next = ''A''\<rparr> ?h,
              Inr ?r429]"
  let ?s0 = "loop_init (None :: nat list option) [(''cursor'', ''*'')]
               \<lparr>net = 0::nat, trace = []\<rparr>"
  let ?u = "''https://api.elsevier.com/content/search/scopus?query=q&apiKey=k''"
  let ?s1 = "\<lparr>next' = ''A'', flag = True, df = Some [1::nat],
     default_params = [(''cursor'', ''*'')],
     world =
       \<lparr>net = Suc 0,
          trace =
            [Sleep 120,
             Get \<lparr>req_url = ?u, req_params = [(''cursor'', ''*'')], req_headers = []\<rparr>,
             Print (Collecting 2),
             Print (Limit ''20000'' 50 (Datetime 1700000000))]\<rparr>\<rparr>"
  have a: "connect_to_endpoint (scripted [Inr ?r404]) ''u'' [(''cursor'', ''*'')] ''AoJ''
             \<lparr>net = 0, trace = []\<rparr>
           = (Inl (HTTPError 404), [(''cursor'', ''AoJ'')],
              \<lparr>net = Suc 0,
                 trace = [Get \<lparr>req_url = ''u'', req_params = [(''cursor'', ''AoJ'')],
                               req_headers = []\<rparr>]\<rparr>)"
    using http_error_propagates
      [where srv = "scripted [Inr ?r404]" and wd = "\<lparr>net = 0, trace = []\<rparr>" and u = "''u''"
         and c = "''AoJ''" and ps = "[(''cursor'', ''*'')]" and r = ?r404 and n = "Suc 0",
       THEN conjunct1]
    by (simp add: scripted_def)
  have b: "connect_to_endpoint_doi (scripted [Inr ?r500]) ''u'' \<lparr>net = 0, trace = []\<rparr>
           = (Inl (HTTPError 500),
              \<lparr>net = Suc 0,
                 trace = [Get \<lparr>req_url = ''u'', req_params = [],
                               req_headers = [(''Accept'', ''application/json'')]\<rparr>]\<rparr>)"
    using http_error_propagates
      [where srv' = "scripted [Inr ?r500]" and wd' = "\<lparr>net = 0, trace = []\<rparr>"
         and u = "''u''" and r' = ?r500 and n' = "Suc 0", THEN conjunct2, THEN conjunct1]
    by (simp add: scripted_def)
  have b1: "loop_body ?srv clock_utc ''k'' ''q'' ?s0 = (Next, ?s1)"
    by (simp add: run_simps)
  have c: "\<exists>s2. while_loop ?srv clock_utc ''k'' ''q'' (Suc (Suc 0)) ?s0
               = Some (ERROR (HTTPError 429), s2)
           \<and> df s2 = df ?s1
           \<and> fetches (trace (world s2)) = Suc (fetches (trace (world ?s1)))"
    using http_error_propagates
      [where srv = ?srv and clock = clock_utc and api_key = "''k''" and q = "''q''"
         and ?s0.0 = ?s0 and ?s1.0 = ?s1
         and u = ?u and r = ?r429 and n = "Suc (Suc 0)" and fuel = 0,
       THEN conjunct2, THEN conjunct2, THEN conjunct1] b1
    by (simp add: scripted_def loop_init_def create_url_eq)
  then obtain s2 where
    w: "while_loop ?srv clock_utc ''k'' ''q'' (Suc (Suc 0)) ?s0 = Some (ERROR (HTTPError 429), s2)"
    and d: "df s2 = df ?s1"
    and f: "fetches (trace (world s2)) = Suc (fetches (trace (world ?s1)))"
    by blast
  from d have "df s2 = Some [1]" by simp
  moreover from f have "fetches (trace (world s2)) = 2" by (simp add: fetches_def)
  ultimately have c': "\<exists>s2. while_loop ?srv clock_utc ''k'' ''q'' (Suc (Suc 0)) ?s0
               = Some (ERROR (HTTPError 429), s2)
           \<and> df s2 = Some [1] \<and> fetches (trace (world s2)) = 2"
    using w by blast
  have d: "raise_for_status ?r300 = Inr ()"
    using http_error_propagates
      [where r = ?r300, THEN conjunct2, THEN conjunct2, THEN conjunct2, THEN conjunct1]
    by simp
  have e: "connect_to_endpoint (scripted [Inr ?r300]) ''u'' [(''cursor'', ''*'')] ''AoJ''
             \<lparr>net = 0, trace = []\<rparr>
           = (Inl JSONDecodeError, [(''cursor'', ''AoJ'')],
              \<lparr>net = Suc 0,
                 trace = [Get \<lparr>req_url = ''u'', req_params = [(''cursor'', ''AoJ'')],
                               req_headers = []\<rparr>]\<rparr>)"
    using http_error_propagates
      [where srv = "scripted [Inr ?r300]" and wd = "\<lparr>net = 0, trace = []\<rparr>" and u = "''u''"
         and c = "''AoJ''" and ps = "[(''cursor'', ''*'')]" and r = ?r300 and n = "Suc 0",
       THEN conjunct2, THEN conjunct2, THEN conjunct2, THEN conjunct2, THEN conjunct1]
    by (simp add: scripted_def)
  have f: "connect_to_endpoint_doi (scripted [Inr ?r304]) ''u'' \<lparr>net = 0, trace = []\<rparr>
           = (Inr ([(''abstracts-retrieval-response'', 7)], ?h),
              \<lparr>net = Suc 0,
                 trace = [Get \<lparr>req_url = ''u'', req_params = [],
                               req_headers = [(''Accept'', ''application/json'')]\<rparr>]\<rparr>)"
    using http_error_propagates
      [where srv' = "scripted [Inr ?r304]" and wd' = "\<lparr>net = 0, trace = []\<rparr>"
         and u = "''u''" and r' = ?r304 and n' = "Suc 0",
       THEN conjunct2, THEN conjunct2, THEN conjunct2, THEN conjunct2, THEN conjunct2]
    by (simp add: scripted_def)
  from a b c' d e f show ?thesis by (intro conjI)
qed

text \<open>
  Claim C4 as it is written speaks of every non-success status, which the
  specification's error taxonomy spells out as every status that is not 2xx. The status
  check lets the statuses below 400 pass: a response with status 300 and a body is
  returned to the caller by the search fetcher, and on a response with status 304 and no
  body the retrieval fetcher fails in \<^verbatim>\<open>r.json()\<close>, with an error that carries no status.
\<close>

theorem other_status_not_raised:
  "connect_to_endpoint
     (scripted
        [Inr \<lparr>status_code = 300,
              json = Some [(''search-results'',
                            \<lparr>total_results = 1, entry = [1::nat], cursor_current = ''*'',
                               cursor_next = ''A''\<rparr>)],
              headers = \<lparr>x_ratelimit_limit = ''20000'', x_ratelimit_remaining = 50,
                         x_ratelimit_reset = 1700000000\<rparr>\<rparr>])
     ''u'' [(''cursor'', ''*'')] ''*'' \<lparr>net = 0, trace = []\<rparr>
   = (Inr (\<lparr>total_results = 1, entry = [1], cursor_current = ''*'', cursor_next = ''A''\<rparr>,
           \<lparr>x_ratelimit_limit = ''20000'', x_ratelimit_remaining = 50,
              x_ratelimit_reset = 1700000000\<rparr>),
      [(''cursor'', ''*'')],
      \<lparr>net = Suc 0,
         trace = [Get \<lparr>req_url = ''u'', req_params = [(''cursor'', ''*'')],
                       req_headers = []\<rparr>]\<rparr>)
   \<and> connect_to_endpoint_doi
     (scripted
        [Inr \<lparr>status_code = 304, json = None :: (string \<times> nat) list option,
              headers = \<lparr>x_ratelimit_limit = ''20000'', x_ratelimit_remaining = 50,
                         x_ratelimit_reset = 1700000000\<rparr>\<rparr>])
     ''u'' \<lparr>net = 0, trace = []\<rparr>
   = (Inl JSONDecodeError,
      \<lparr>net = Suc 0,
         trace = [Get \<lparr>req_url = ''u'', req_params = [],
                       req_headers = [(''Accept'', ''application/json'')]\<rparr>]\<rparr>)"
  by (simp add: connect_to_endpoint_def connect_to_endpoint_doi_def requests_get_def
        raise_for_status_def scripted_def Let_def)

text \<open>
  Claim C8. Every iteration of the loop, from any state and whatever the server and
  \<^verbatim>\<open>datetime.fromtimestamp\<close> do, first pauses and then sends its request: the events
  of the iteration begin with the pause, the request follows it at once, and the
  iteration sends no other request.
\<close>

theorem pause_before_fetch:
  "\<exists>req rest.
     trace (world (snd (loop_body srv clock api_key q s)))
       = trace (world s) @ Sleep 120 # Get req # rest
     \<and> filter is_Get rest = []"
  by (auto simp: loop_body_def create_url_eq emit_def Let_def pd_DataFrame_def pd_concat_def
        dest: connect_to_endpoint_effects(2)
        split: prod.splits sum.splits option.splits)

text \<open>The theorem on the first iteration of a run.\<close>

theorem pause_before_fetch_witness:
  "trace (world (snd (loop_body
       (scripted
          [page_response
             \<lparr>total_results = 4, entry = [1, 2, 3::nat], cursor_current = ''*'',
                cursor_next = ''AoJ''\<rparr>
             \<lparr>x_ratelimit_limit = ''20000'', x_ratelimit_remaining = 50,
                x_ratelimit_reset = 1700000000\<rparr>])
       clock_utc ''k'' ''q'' (loop_init None [(''cursor'', ''*'')] \<lparr>net = 0, trace = []\<rparr>))))
   = [Sleep 120,
      Get \<lparr>req_url = ''https://api.elsevier.com/content/search/scopus?query=q&apiKey=k'',
           req_params = [(''cursor'', ''*'')], req_headers = []\<rparr>,
      Print (Collecting 4), Print (Limit ''20000'' 50 (Datetime 1700000000))]"
  using pause_before_fetch
    [where srv = "scripted
          [page_response
             \<lparr>total_results = 4, entry = [1, 2, 3::nat], cursor_current = ''*'',
                cursor_next = ''AoJ''\<rparr>
             \<lparr>x_ratelimit_limit = ''20000'', x_ratelimit_remaining = 50,
                x_ratelimit_reset = 1700000000\<rparr>]"
       and clock = clock_utc and api_key = "''k''" and q = "''q''"
       and s = "loop_init None [(''cursor'', ''*'')] \<lparr>net = 0, trace = []\<rparr>"]
  by (simp add: run_simps)

text \<open>
  Claim C9. Whatever \<^verbatim>\<open>params\<close> holds, the one request that
  \<^verbatim>\<open>connect_to_endpoint\<close> sends carries \<^verbatim>\<open>cursor = next_\<close>: the entry is overwritten
  before the GET, the dictionary left behind holds the same entry, and a cursor that
  the caller had put into \<^verbatim>\<open>params\<close> changes nothing about the call.
\<close>

theorem connect_to_endpoint_sends_next_cursor:
  "trace (snd (snd (connect_to_endpoint srv full_url params c wd)))
     = trace wd @
       [Get \<lparr>req_url = full_url, req_params = AList.update ''cursor'' c params, req_headers = []\<rparr>]
   \<and> map_of (AList.update ''cursor'' c params) ''cursor'' = Some c
   \<and> fst (snd (connect_to_endpoint srv full_url params c wd)) = AList.update ''cursor'' c params
   \<and> connect_to_endpoint srv full_url (AList.update ''cursor'' c' params) c wd
       = connect_to_endpoint srv full_url params c wd"
proof -
  obtain res ps1 wd1 where r: "connect_to_endpoint srv full_url params c wd = (res, ps1, wd1)"
    by (cases "connect_to_endpoint srv full_url params c wd") auto
  have "map_of (AList.update ''cursor'' c params) ''cursor'' = Some c"
    by (simp add: update_conv')
  moreover have "connect_to_endpoint srv full_url (AList.update ''cursor'' c' params) c wd
       = connect_to_endpoint srv full_url params c wd"
    by (simp add: connect_to_endpoint_def)
  ultimately show ?thesis
    using connect_to_endpoint_effects [OF r] r by simp
qed

text \<open>The theorem on a dictionary that came with a stale cursor.\<close>

theorem connect_to_endpoint_sends_next_cursor_witness:
  "trace (snd (snd (connect_to_endpoint
       (scripted
          [page_response
             \<lparr>total_results = 4, entry = [1, 2, 3::nat], cursor_current = ''AoJ'',
                cursor_next = ''AoK''\<rparr>
             \<lparr>x_ratelimit_limit = ''20000'', x_ratelimit_remaining = 50,
                x_ratelimit_reset = 1700000000\<rparr>])
       ''u'' [(''cursor'', ''stale''), (''count'', ''25'')] ''AoJ''
       \<lparr>net = 0, trace = []\<rparr>)))
   = [Get \<lparr>req_url = ''u'', req_params = [(''cursor'', ''AoJ''), (''count'', ''25'')],
           req_headers = []\<rparr>]"
  using connect_to_endpoint_sends_next_cursor
    [where srv = "scripted
          [page_response
             \<lparr>total_results = 4, entry = [1, 2, 3::nat], cursor_current = ''AoJ'',
                cursor_next = ''AoK''\<rparr>
             \<lparr>x_ratelimit_limit = ''20000'', x_ratelimit_remaining = 50,
                x_ratelimit_reset = 1700000000\<rparr>]"
       and full_url = "''u''" and params = "[(''cursor'', ''stale''), (''count'', ''25'')]"
       and c = "''AoJ''" and wd = "\<lparr>net = 0, trace = []\<rparr>"]
  by simp

text \<open>
  Claim C10. An iteration whose fetch raises ends with that exception and leaves the
  dataframe, the cursor and the flag as they were. A run that ends in \<open>ERROR\<close> has
  made some number of whole iterations, reaching a state \<open>s\<close>, and raised in the
  next one: its dataframe is the dataframe of \<open>s\<close>. And on a server that hands out a
  first page (with a reset header that \<^verbatim>\<open>datetime.fromtimestamp\<close> accepts, and within
  the quota), then any number of further pages that are not the last, and then answers
  with an HTTP error status, the run ends in \<open>ERROR\<close> with that status and a
  dataframe that holds exactly the records of the pages fetched before, in their order.
\<close>

theorem failed_fetch_keeps_dataframe:
  "(fetch_page srv api_key q s = Inl e \<longrightarrow>
      (\<exists>s'. loop_body srv clock api_key q s = (Raise e, s') \<and> df s' = df s
            \<and> next' s' = next' s \<and> flag s' = flag s))
   \<and> (while_loop srv clock api_key q fuel s0 = Some (ERROR e, s1) \<longrightarrow>
      (\<exists>n s. n < fuel \<and> iterations srv clock api_key q n s0 = Some s \<and> flag s
            \<and> loop_body srv clock api_key q s = (Raise e, s1) \<and> df s1 = df s))
   \<and> (cursor_current p1 = ''*'' \<and> clock (x_ratelimit_reset h1) = Inr t1
      \<and> total_results p1 \<le> x_ratelimit_remaining h1
      \<and> list_all (\<lambda>ph. cursor_current (fst ph) \<noteq> ''*''
                        \<and> cursor_next (fst ph) \<noteq> cursor_current (fst ph)) mids
      \<and> 400 \<le> status_code r \<and> status_code r < 600
      \<and> length mids + 2 \<le> m \<longrightarrow>
      (\<exists>s'. while_loop
               (scripted (page_response p1 h1 #
                  map (\<lambda>ph. page_response (fst ph) (snd ph)) mids @ [Inr r]))
               clock api_key q m (loop_init df0 params0 \<lparr>net = 0, trace = tr\<rparr>)
             = Some (ERROR (HTTPError (status_code r)), s')
           \<and> df s' = Some (entry p1 @ concat (map (\<lambda>ph. entry (fst ph)) mids))
           \<and> fetches (trace (world s')) = fetches tr + length mids + 2))"
proof (intro conjI impI)
  assume "fetch_page srv api_key q s = Inl e"
  then show "\<exists>s'. loop_body srv clock api_key q s = (Raise e, s') \<and> df s' = df s
            \<and> next' s' = next' s \<and> flag s' = flag s"
    using loop_body_raises
      [where srv = srv and clock = clock and k = api_key and q = q and s = s and e = e]
    by blast
next
  assume "while_loop srv clock api_key q fuel s0 = Some (ERROR e, s1)"
  then show "\<exists>n s. n < fuel \<and> iterations srv clock api_key q n s0 = Some s \<and> flag s
            \<and> loop_body srv clock api_key q s = (Raise e, s1) \<and> df s1 = df s"
    by (rule while_loop_error_iterations)
next
  assume h: "cursor_current p1 = ''*'' \<and> clock (x_ratelimit_reset h1) = Inr t1
      \<and> total_results p1 \<le> x_ratelimit_remaining h1
      \<and> list_all (\<lambda>ph. cursor_current (fst ph) \<noteq> ''*''
                        \<and> cursor_next (fst ph) \<noteq> cursor_current (fst ph)) mids
      \<and> 400 \<le> status_code r \<and> status_code r < 600
      \<and> length mids + 2 \<le> m"
  then obtain fuel' where m: "m = Suc (Suc (length mids)) + fuel'"
    by (auto simp: le_iff_add)
  from h show "\<exists>s'. while_loop
               (scripted (page_response p1 h1 #
                  map (\<lambda>ph. page_response (fst ph) (snd ph)) mids @ [Inr r]))
               clock api_key q m (loop_init df0 params0 \<lparr>net = 0, trace = tr\<rparr>)
             = Some (ERROR (HTTPError (status_code r)), s')
           \<and> df s' = Some (entry p1 @ concat (map (\<lambda>ph. entry (fst ph)) mids))
           \<and> fetches (trace (world s')) = fetches tr + length mids + 2"
    unfolding m
    by (intro scripted_run_http_error [where clock = clock and ?t1.0 = t1]) simp_all
qed

text \<open>
  The theorem on a server that fails at once, with a dataframe bound before the loop,
  on a server that fails on the second fetch, and on one that fails on the third.
\<close>

theorem failed_fetch_keeps_dataframe_witness:
  "(\<exists>s'. loop_body
            (scripted
               [Inr \<lparr>status_code = 500, json = None,
                     headers = \<lparr>x_ratelimit_limit = ''20000'', x_ratelimit_remaining = 50,
                                x_ratelimit_reset = 1700000000\<rparr>\<rparr>])
            clock_utc ''k'' ''q'' (loop_init (Some [7::nat]) [(''cursor'', ''*'')] \<lparr>net = 0, trace = []\<rparr>)
          = (Raise (HTTPError 500), s')
        \<and> df s' = Some [7] \<and> next' s' = ''*'' \<and> flag s')
   \<and> (\<exists>n s s1. n < 2
        \<and> iterations
            (scripted
               [page_response
                  \<lparr>total_results = 2, entry = [1::nat], cursor_current = ''*'',
                     cursor_next = ''A''\<rparr>
                  \<lparr>x_ratelimit_limit = ''20000'', x_ratelimit_remaining = 50,
                     x_ratelimit_reset = 1700000000\<rparr>,
                Inr \<lparr>status_code = 429, json = None,
                     headers = \<lparr>x_ratelimit_limit = ''20000'', x_ratelimit_remaining = 0,
                                x_ratelimit_reset = 1700000000\<rparr>\<rparr>])
            clock_utc ''k'' ''q'' n (loop_init None [(''cursor'', ''*'')] \<lparr>net = 0, trace = []\<rparr>)
          = Some s
        \<and> flag s
        \<and> loop_body
            (scripted
               [page_response
                  \<lparr>total_results = 2, entry = [1::nat], cursor_current = ''*'',
                     cursor_next = ''A''\<rparr>
                  \<lparr>x_ratelimit_limit = ''20000'', x_ratelimit_remaining = 50,
                     x_ratelimit_reset = 1700000000\<rparr>,
                Inr \<lparr>status_code = 429, json = None,
                     headers = \<lparr>x_ratelimit_limit = ''20000'', x_ratelimit_remaining = 0,
                                x_ratelimit_reset = 1700000000\<rparr>\<rparr>])
            clock_utc ''k'' ''q'' s
          = (Raise (HTTPError 429), s1)
        \<and> df s1 = df s \<and> df s1 = Some [1])
   \<and> (\<exists>s'. while_loop
            (scripted
               [page_response
                  \<lparr>total_results = 5, entry = [1, 2::nat], cursor_current = ''*'',
                     cursor_next = ''A''\<rparr>
                  \<lparr>x_ratelimit_limit = ''20000'', x_ratelimit_remaining = 50,
                     x_ratelimit_reset = 1700000000\<rparr>,
                page_response
                  \<lparr>total_results = 5, entry = [3, 4], cursor_current = ''A'',
                     cursor_next = ''B''\<rparr>
                  \<lparr>x_ratelimit_limit = ''20000'', x_ratelimit_remaining = 49,
                     x_ratelimit_reset = 1700000000\<rparr>,
                Inr \<lparr>status_code = 503, json = None,
                     headers = \<lparr>x_ratelimit_limit = ''20000'', x_ratelimit_remaining = 48,
                                x_ratelimit_reset = 1700000000\<rparr>\<rparr>])
            clock_utc ''k'' ''q'' 3 (loop_init None [(''cursor'', ''*'')] \<lparr>net = 0, trace = []\<rparr>)
          = Some (ERROR (HTTPError 503), s')
        \<and> df s' = Some [1, 2, 3, 4] \<and> fetches (trace (world s')) = 3)"
proof -
  let ?srvA = "scripted
               [Inr \<lparr>status_code = 500, json = None :: (string \<times> nat page) list option,
                     headers = \<lparr>x_ratelimit_limit = ''20000'', x_ratelimit_remaining = 50,
                                x_ratelimit_reset = 1700000000\<rparr>\<rparr>]"
  let ?sA = "loop_init (Some [7::nat]) [(''cursor'', ''*'')] \<lparr>net = 0::nat, trace = []\<rparr>"
  let ?srvB = "scripted
               [page_response
                  \<lparr>total_results = 2, entry = [1::nat], cursor_current = ''*'',
                     cursor_next = ''A''\<rparr>
                  \<lparr>x_ratelimit_limit = ''20000'', x_ratelimit_remaining = 50,
                     x_ratelimit_reset = 1700000000\<rparr>,
                Inr \<lparr>status_code = 429, json = None,
                     headers = \<lparr>x_ratelimit_limit = ''20000'', x_ratelimit_remaining = 0,
                                x_ratelimit_reset = 1700000000\<rparr>\<rparr>]"
  let ?sB = "loop_init (None :: nat list option) [(''cursor'', ''*'')]
               \<lparr>net = 0::nat, trace = []\<rparr>"
  let ?s1 = "\<lparr>next' = ''A'', flag = True, df = Some [1::nat],
      default_params = [(''cursor'', ''A'')],
      world =
        \<lparr>net = 2::nat,
           trace =
             [Sleep 120,
              Get \<lparr>req_url =
                     ''https://api.elsevier.com/content/search/scopus?query=q&apiKey=k'',
                     req_params = [(''cursor'', ''*'')], req_headers = []\<rparr>,
              Print (Collecting 2), Print (Limit ''20000'' 50 (Datetime 1700000000)),
              Sleep 120,
              Get \<lparr>req_url =
                     ''https://api.elsevier.com/content/search/scopus?query=q&apiKey=k'',
                     req_params = [(''cursor'', ''A'')],
                     req_headers = []\<rparr>]\<rparr>\<rparr>"
  let ?p1 = "\<lparr>total_results = 5, entry = [1, 2::nat], cursor_current = ''*'',
               cursor_next = ''A''\<rparr>"
  let ?h1 = "\<lparr>x_ratelimit_limit = ''20000'', x_ratelimit_remaining = 50,
               x_ratelimit_reset = 1700000000\<rparr>"
  let ?mids = "[(\<lparr>total_results = 5, entry = [3, 4::nat], cursor_current = ''A'',
                  cursor_next = ''B''\<rparr>,
                \<lparr>x_ratelimit_limit = ''20000'', x_ratelimit_remaining = 49,
                  x_ratelimit_reset = 1700000000\<rparr>)]"
  let ?r = "\<lparr>status_code = 503, json = None :: (string \<times> nat page) list option,
              headers = \<lparr>x_ratelimit_limit = ''20000'', x_ratelimit_remaining = 48,
                         x_ratelimit_reset = 1700000000\<rparr>\<rparr>"
  have hA: "fetch_page ?srvA ''k'' ''q'' ?sA = Inl (HTTPError 500)"
    by (simp add: run_simps)
  have hB: "while_loop ?srvB clock_utc ''k'' ''q'' 2 ?sB = Some (ERROR (HTTPError 429), ?s1)"
    by (simp add: run_simps)
  have A: "\<exists>s'. loop_body ?srvA clock_utc ''k'' ''q'' ?sA = (Raise (HTTPError 500), s')
        \<and> df s' = df ?sA \<and> next' s' = next' ?sA \<and> flag s' = flag ?sA"
    using failed_fetch_keeps_dataframe
      [where srv = ?srvA and clock = clock_utc and api_key = "''k''" and q = "''q''"
         and s = ?sA and e = "HTTPError 500", THEN conjunct1] hA
    by blast
  have B: "\<exists>n s. n < 2 \<and> iterations ?srvB clock_utc ''k'' ''q'' n ?sB = Some s \<and> flag s
        \<and> loop_body ?srvB clock_utc ''k'' ''q'' s = (Raise (HTTPError 429), ?s1) \<and> df ?s1 = df s"
    using failed_fetch_keeps_dataframe
      [where srv = ?srvB and clock = clock_utc and api_key = "''k''" and q = "''q''"
         and fuel = 2 and ?s0.0 = ?sB
         and e = "HTTPError 429" and ?s1.0 = ?s1, THEN conjunct2, THEN conjunct1] hB
    by blast
  have C: "\<exists>s'. while_loop
               (scripted (page_response ?p1 ?h1 #
                  map (\<lambda>ph. page_response (fst ph) (snd ph)) ?mids @ [Inr ?r]))
               clock_utc ''k'' ''q'' 3 (loop_init None [(''cursor'', ''*'')] \<lparr>net = 0, trace = []\<rparr>)
             = Some (ERROR (HTTPError (status_code ?r)), s')
           \<and> df s' = Some (entry ?p1 @ concat (map (\<lambda>ph. entry (fst ph)) ?mids))
           \<and> fetches (trace (world s')) = fetches [] + length ?mids + 2"
    by (rule failed_fetch_keeps_dataframe
      [where ?p1.0 = ?p1 and ?h1.0 = ?h1 and mids = ?mids and r = ?r and m = 3
         and clock = clock_utc and ?t1.0 = "Datetime 1700000000"
         and api_key = "''k''" and q = "''q''" and ?df0.0 = None
         and ?params0.0 = "[(''cursor'', ''*'')]" and tr = "[]",
       THEN conjunct2, THEN conjunct2, THEN mp]) (simp add: clock_utc_def)
  from A have A': "\<exists>s'. loop_body ?srvA clock_utc ''k'' ''q'' ?sA = (Raise (HTTPError 500), s')
        \<and> df s' = Some [7] \<and> next' s' = ''*'' \<and> flag s'"
    by (simp add: loop_init_def)
  from B obtain n s where
    "n < 2" "iterations ?srvB clock_utc ''k'' ''q'' n ?sB = Some s" "flag s"
    "loop_body ?srvB clock_utc ''k'' ''q'' s = (Raise (HTTPError 429), ?s1)" "df ?s1 = df s"
    by blast
  moreover have "df ?s1 = Some [1]" by simp
  ultimately have B': "\<exists>n s s1. n < 2 \<and> iterations ?srvB clock_utc ''k'' ''q'' n ?sB = Some s \<and> flag s
        \<and> loop_body ?srvB clock_utc ''k'' ''q'' s = (Raise (HTTPError 429), s1) \<and> df s1 = df s
        \<and> df s1 = Some [1]"
    by blast
  from C have C': "\<exists>s'. while_loop
               (scripted [page_response ?p1 ?h1,
                  page_response
                  \<lparr>total_results = 5, entry = [3, 4], cursor_current = ''A'',
                     cursor_next = ''B''\<rparr>
                  \<lparr>x_ratelimit_limit = ''20000'', x_ratelimit_remaining = 49,
                     x_ratelimit_reset = 1700000000\<rparr>, Inr ?r])
               clock_utc ''k'' ''q'' 3 (loop_init None [(''cursor'', ''*'')] \<lparr>net = 0, trace = []\<rparr>)
             = Some (ERROR (HTTPError 503), s')
           \<and> df s' = Some [1, 2, 3, 4] \<and> fetches (trace (world s')) = 3"
    by (simp add: fetches_def numeral_3_eq_3)
  from A' B' C' show ?thesis by (intro conjI)
qed

end
